theory Spec2Isabelle
  imports Main "HOL-Library.Sublist"
begin

section \<open>Python values, exceptions and the trace of effects\<close>

text \<open>
  The program (\<^verbatim>\<open>src/frontend/app.py\<close>) is a Streamlit front end of a REST service.
  Every value it handles is a parsed JSON value or a cell of a pandas frame built from
  one. \<open>PNone\<close> is Python's \<^verbatim>\<open>None\<close> (JSON null), \<open>PNaN\<close> is the float NaN
  pandas puts in a cell whose record lacks the column. A dict is an association list in
  insertion order with distinct keys. JSON numbers are integers here (the service's
  counts and years); floats other than NaN are outside the model.
\<close>

datatype pyval =
    PNone
  | PNaN
  | PBool bool
  | PNum int
  | PStr string
  | PList "pyval list"
  | PDict "(string \<times> pyval) list"

text \<open>Truth value testing, as \<^verbatim>\<open>if x\<close> and \<^verbatim>\<open>x and y\<close> do it.\<close>

fun truthy :: "pyval \<Rightarrow> bool" where
  "truthy PNone = False"
| "truthy PNaN = True"
| "truthy (PBool b) = b"
| "truthy (PNum n) = (n \<noteq> 0)"
| "truthy (PStr s) = (s \<noteq> [])"
| "truthy (PList xs) = (xs \<noteq> [])"
| "truthy (PDict d) = (d \<noteq> [])"

fun isinstance_dict :: "pyval \<Rightarrow> bool" where
  "isinstance_dict (PDict d) = True"
| "isinstance_dict v = False"

text \<open>
  The exception classes that occur. \<open>ConnectTimeout\<close> derives from both
  \<^verbatim>\<open>requests.exceptions.ConnectionError\<close> and \<^verbatim>\<open>requests.exceptions.Timeout\<close>,
  \<open>ReadTimeout\<close> from \<^verbatim>\<open>Timeout\<close> only; \<open>RequestException\<close> stands for the other
  errors of the requests library. \<open>KeyError\<close> carries the missing key. All of them
  derive from \<^verbatim>\<open>Exception\<close>.
\<close>

datatype py_exception =
    ConnectionError
  | ConnectTimeout
  | ReadTimeout
  | RequestException
  | JSONDecodeError
  | UnboundLocalError
  | AttributeError
  | KeyError string
  | IndexError
  | TypeError
  | ValueError

fun isinstance_ConnectionError :: "py_exception \<Rightarrow> bool" where
  "isinstance_ConnectionError ConnectionError = True"
| "isinstance_ConnectionError ConnectTimeout = True"
| "isinstance_ConnectionError e = False"

fun isinstance_Timeout :: "py_exception \<Rightarrow> bool" where
  "isinstance_Timeout ConnectTimeout = True"
| "isinstance_Timeout ReadTimeout = True"
| "isinstance_Timeout e = False"

text \<open>
  \<^verbatim>\<open>d.get(k, default)\<close>: only a dict has the method; on any other value the attribute
  lookup raises \<open>AttributeError\<close>. \<^verbatim>\<open>d[k]\<close> with a string key: \<open>KeyError\<close> on a dict
  without the key, \<open>TypeError\<close> on every value that is not a dict.
\<close>

fun py_get :: "pyval \<Rightarrow> string \<Rightarrow> pyval \<Rightarrow> py_exception + pyval" where
  "py_get (PDict d) k dflt = Inr (case map_of d k of None \<Rightarrow> dflt | Some v \<Rightarrow> v)"
| "py_get v k dflt = Inl AttributeError"

fun py_item :: "pyval \<Rightarrow> string \<Rightarrow> py_exception + pyval" where
  "py_item (PDict d) k = (case map_of d k of None \<Rightarrow> Inl (KeyError k) | Some v \<Rightarrow> Inr v)"
| "py_item v k = Inl TypeError"

text \<open>
  Everything the program does to the outside, in the order it happens: the HTTP requests
  it sends (method, URL, JSON payload), what it puts on the page and what it prints.
\<close>

datatype event =
    HttpRequest string string pyval
  | StError string
  | StWarning string
  | StSuccess string
  | StInfo string
  | StMarkdown string
  | StMetric string pyval
  | StPlotlyChart string pyval
  | StDataframe "string list" "pyval list list"
  | Print string
  | Sleep nat

fun is_request :: "event \<Rightarrow> bool" where
  "is_request (HttpRequest m u d) = True"
| "is_request e = False"

definition requests_of :: "event list \<Rightarrow> event list" where
  "requests_of tr = filter is_request tr"

text \<open>
  What the service answers: a response with its status code, the result of
  \<^verbatim>\<open>response.json()\<close> (\<open>None\<close> where the body is not JSON and the call raises) and
  the raw text; or an exception of the transport.
\<close>

record response =
  status_code :: int
  json :: "pyval option"
  text_of :: string

datatype outcome = Responds response | Raises py_exception

text \<open>
  The environment: the service, which may answer by what has happened so far, and the
  two conversions of the Python runtime the program calls but does not define:
  \<^verbatim>\<open>str(v)\<close> of a list or a dict, and
  \<^verbatim>\<open>str(e)\<close> of an exception.
\<close>

record environment =
  backend :: "event list \<Rightarrow> string \<Rightarrow> string \<Rightarrow> pyval \<Rightarrow> outcome"
  repr_of :: "pyval \<Rightarrow> string"
  exc_text :: "py_exception \<Rightarrow> string"

subsection \<open>Formatting\<close>

definition digit_char :: "nat \<Rightarrow> char" where
  "digit_char d = ''0123456789'' ! (d mod 10)"

function str_nat :: "nat \<Rightarrow> string" where
  "str_nat n = (if n < 10 then [digit_char n] else str_nat (n div 10) @ [digit_char n])"
  by pat_completeness auto
termination
  by (relation "measure id") auto

definition str_int :: "int \<Rightarrow> string" where
  "str_int i = (if i < 0 then ''-'' @ str_nat (nat (- i)) else str_nat (nat i))"

text \<open>\<^verbatim>\<open>str(v)\<close>, as an f-string applies it to a field.\<close>

fun py_str :: "environment \<Rightarrow> pyval \<Rightarrow> string" where
  "py_str env (PStr s) = s"
| "py_str env (PNum n) = str_int n"
| "py_str env (PBool b) = (if b then ''True'' else ''False'')"
| "py_str env PNone = ''None''"
| "py_str env PNaN = ''nan''"
| "py_str env v = repr_of env v"

section \<open>The API client\<close>

definition API_BASE :: string where
  "API_BASE = ''http://localhost:5001/api''"

record LibraryAPI =
  base_url :: string

definition api :: LibraryAPI where
  "api = \<lparr>base_url = API_BASE\<rparr>"

text \<open>
  One call of the requests library (\<^verbatim>\<open>requests.get\<close>, \<^verbatim>\<open>post\<close>, \<^verbatim>\<open>put\<close>,
  \<^verbatim>\<open>delete\<close>, each with the timeout of 10 seconds, whose expiry the transport reports
  as one of its exceptions): the request goes on the trace and the service answers.
\<close>

definition send :: "environment \<Rightarrow> string \<Rightarrow> string \<Rightarrow> pyval \<Rightarrow> event list
    \<Rightarrow> outcome \<times> event list" where
  "send env m url d tr = (backend env tr m url d, tr @ [HttpRequest m url d])"

text \<open>Non-ASCII characters of the banners are given as their UTF-8 bytes.\<close>

definition cannot_connect_msg :: string where
  "cannot_connect_msg = [CHR 0xE2, CHR 0x9D, CHR 0x8C]
     @ '' Cannot connect to the server. Please make sure the backend is running.''"

definition timeout_msg :: string where
  "timeout_msg = [CHR 0xE2, CHR 0x8F, CHR 0xB0]
     @ '' Request timeout. The server is taking too long to respond.''"

text \<open>
  The body of the \<^verbatim>\<open>try\<close> block of \<^verbatim>\<open>LibraryAPI._make_request\<close>: \<open>Inl\<close> is an
  exception raised inside it. A method other than the four leaves \<^verbatim>\<open>response\<close>
  unbound, and reading it raises \<open>UnboundLocalError\<close> before anything is sent.
  \<^verbatim>\<open>response.json()\<close> raises \<open>JSONDecodeError\<close> on a body that is not JSON.
\<close>

definition request_try :: "environment \<Rightarrow> LibraryAPI \<Rightarrow> string \<Rightarrow> string \<Rightarrow> pyval
    \<Rightarrow> event list \<Rightarrow> (py_exception + pyval) \<times> event list" where
  "request_try env self endpoint method data tr =
    (let url = base_url self @ endpoint;
         sent =
          (if method = ''GET'' then Some (send env ''GET'' url PNone tr)
           else if method = ''POST'' then Some (send env ''POST'' url data tr)
           else if method = ''PUT'' then Some (send env ''PUT'' url data tr)
           else if method = ''DELETE'' then Some (send env ''DELETE'' url PNone tr)
           else None)
     in case sent of
          None \<Rightarrow> (Inl UnboundLocalError, tr)
        | Some (Raises e, tr1) \<Rightarrow> (Inl e, tr1)
        | Some (Responds r, tr1) \<Rightarrow>
            if status_code r = 200 then
              (case json r of
                 None \<Rightarrow> (Inl JSONDecodeError, tr1)
               | Some v \<Rightarrow> (Inr v, tr1))
            else
              (case json r of
                 None \<Rightarrow> (Inl JSONDecodeError, tr1)
               | Some body \<Rightarrow>
                  (case py_get body ''error'' (PStr ''Unknown error'') of
                     Inl e \<Rightarrow> (Inl e, tr1)
                   | Inr error_msg \<Rightarrow>
                      (Inr PNone,
                       tr1 @ [StError (''API Error ('' @ str_int (status_code r) @ ''): ''
                                @ py_str env error_msg),
                              Print (''Full error response: '' @ text_of r)]))))"

text \<open>
  The three \<^verbatim>\<open>except\<close> clauses of \<^verbatim>\<open>_make_request\<close>, tried in the source's order:
  what each puts on the page and prints. The last one, \<^verbatim>\<open>except Exception\<close>, takes
  every exception class of the model.
\<close>

definition except_clauses :: "environment \<Rightarrow> py_exception \<Rightarrow> event list" where
  "except_clauses env e =
    (if isinstance_ConnectionError e then [StError cannot_connect_msg]
     else if isinstance_Timeout e then [StError timeout_msg]
     else [StError (''Error: '' @ exc_text env e), Print (''Detailed error: '' @ exc_text env e)])"

text \<open>
  \<^verbatim>\<open>_make_request\<close>: the value it returns, \<open>PNone\<close> for \<^verbatim>\<open>return None\<close>, which
  every \<^verbatim>\<open>except\<close> clause ends with.
\<close>

definition make_request :: "environment \<Rightarrow> LibraryAPI \<Rightarrow> string \<Rightarrow> string \<Rightarrow> pyval
    \<Rightarrow> event list \<Rightarrow> pyval \<times> event list" where
  "make_request env self endpoint method data tr =
    (case request_try env self endpoint method data tr of
       (Inr v, tr1) \<Rightarrow> (v, tr1)
     | (Inl e, tr1) \<Rightarrow> (PNone, tr1 @ except_clauses env e))"

definition get_health :: "environment \<Rightarrow> LibraryAPI \<Rightarrow> event list \<Rightarrow> pyval \<times> event list" where
  "get_health env self tr = make_request env self ''/health'' ''GET'' PNone tr"

definition get_books :: "environment \<Rightarrow> LibraryAPI \<Rightarrow> int \<Rightarrow> int \<Rightarrow> string \<Rightarrow> string
    \<Rightarrow> event list \<Rightarrow> pyval \<times> event list" where
  "get_books env self page limit search category tr =
    (let params = ''?page='' @ str_int page @ ''&limit='' @ str_int limit;
         params = (if search \<noteq> [] then params @ ''&search='' @ search else params);
         params = (if category \<noteq> [] then params @ ''&category='' @ category else params)
     in make_request env self (''/books'' @ params) ''GET'' PNone tr)"

definition add_book :: "environment \<Rightarrow> LibraryAPI \<Rightarrow> pyval \<Rightarrow> event list
    \<Rightarrow> pyval \<times> event list" where
  "add_book env self book_data tr = make_request env self ''/books'' ''POST'' book_data tr"

definition get_users :: "environment \<Rightarrow> LibraryAPI \<Rightarrow> int \<Rightarrow> int \<Rightarrow> string
    \<Rightarrow> event list \<Rightarrow> pyval \<times> event list" where
  "get_users env self page limit user_type tr =
    (let params = ''?page='' @ str_int page @ ''&limit='' @ str_int limit;
         params = (if user_type \<noteq> [] then params @ ''&userType='' @ user_type else params)
     in make_request env self (''/users'' @ params) ''GET'' PNone tr)"

definition add_user :: "environment \<Rightarrow> LibraryAPI \<Rightarrow> pyval \<Rightarrow> event list
    \<Rightarrow> pyval \<times> event list" where
  "add_user env self user_data tr = make_request env self ''/users'' ''POST'' user_data tr"

definition get_transactions :: "environment \<Rightarrow> LibraryAPI \<Rightarrow> int \<Rightarrow> int \<Rightarrow> string
    \<Rightarrow> event list \<Rightarrow> pyval \<times> event list" where
  "get_transactions env self page limit status tr =
    (let params = ''?page='' @ str_int page @ ''&limit='' @ str_int limit;
         params = (if status \<noteq> [] then params @ ''&status='' @ status else params)
     in make_request env self (''/transactions'' @ params) ''GET'' PNone tr)"

definition get_dashboard_stats :: "environment \<Rightarrow> LibraryAPI \<Rightarrow> event list
    \<Rightarrow> pyval \<times> event list" where
  "get_dashboard_stats env self tr =
     make_request env self ''/analytics/dashboard'' ''GET'' PNone tr"

definition return_book :: "environment \<Rightarrow> LibraryAPI \<Rightarrow> pyval \<Rightarrow> event list
    \<Rightarrow> pyval \<times> event list" where
  "return_book env self transaction_id tr =
     make_request env self ''/transactions/return'' ''POST''
       (PDict [(''transactionId'', transaction_id)]) tr"

text \<open>The four methods for which \<^verbatim>\<open>_make_request\<close> sends something, and what it sends
  as the JSON payload (\<^verbatim>\<open>json=data\<close> for POST and PUT, nothing for GET and DELETE).\<close>

definition known_method :: "string \<Rightarrow> bool" where
  "known_method m = (m = ''GET'' \<or> m = ''POST'' \<or> m = ''PUT'' \<or> m = ''DELETE'')"

definition sent_data :: "string \<Rightarrow> pyval \<Rightarrow> pyval" where
  "sent_data m d = (if m = ''POST'' \<or> m = ''PUT'' then d else PNone)"

text \<open>A service that gives the same answer to every request, for the examples.\<close>

definition answering :: "outcome \<Rightarrow> environment" where
  "answering out =
     \<lparr>backend = (\<lambda>tr m url d. out), repr_of = (\<lambda>v. ''<repr>''),
      exc_text = (\<lambda>e. ''<exception>'')\<rparr>"

section \<open>Pages\<close>

text \<open>
  How a page function ends: it returns, an exception leaves it, or \<^verbatim>\<open>st.rerun()\<close>
  restarts the script.
\<close>

datatype page_exit = Done | Failed py_exception | Rerun

definition html_div :: "string \<Rightarrow> string \<Rightarrow> string" where
  "html_div cls body = ''<div class='' @ [CHR 0x22] @ cls @ [CHR 0x22] @ ''>'' @ body @ ''</div>''"

definition check_mark :: string where
  "check_mark = [CHR 0xE2, CHR 0x9C, CHR 0x85]"

subsection \<open>Connection check\<close>

definition check_connection :: "environment \<Rightarrow> event list \<Rightarrow> (py_exception + bool) \<times> event list" where
  "check_connection env tr =
    (let (health, tr1) = get_health env api tr in
     if truthy health then
       (case py_get health ''status'' PNone of
          Inl e \<Rightarrow> (Inl e, tr1)
        | Inr status \<Rightarrow> (Inr (status = PStr ''OK''), tr1))
     else (Inr False, tr1))"

subsection \<open>The forms that add a book and a user\<close>

text \<open>
  The values of the widgets of \<^verbatim>\<open>add_book_form\<close> when the script runs, and whether the
  submit button was pressed.
\<close>

record book_form =
  title :: string
  author :: string
  category :: string
  isbn :: string
  total_copies :: int
  published_year :: int
  description :: string

definition opt_text :: "string \<Rightarrow> pyval" where
  "opt_text s = (if s \<noteq> [] then PStr s else PNone)"

definition book_data :: "book_form \<Rightarrow> pyval" where
  "book_data f =
     PDict [(''title'', PStr (title f)),
            (''author'', PStr (author f)),
            (''category'', PStr (category f)),
            (''isbn'', opt_text (isbn f)),
            (''totalCopies'', PNum (total_copies f)),
            (''availableCopies'', PNum (total_copies f)),
            (''publishedYear'',
               if published_year f \<noteq> 0 then PNum (published_year f) else PNone),
            (''description'', opt_text (description f))]"

text \<open>
  What follows a write (\<^verbatim>\<open>if result and result.get('success')\<close>): the success banner,
  the pause and the rerun. \<^verbatim>\<open>result.get\<close> raises on a result that is true but no dict.
\<close>

definition after_write :: "pyval \<Rightarrow> string \<Rightarrow> nat \<Rightarrow> event list \<Rightarrow> page_exit \<times> event list" where
  "after_write result banner pause tr =
    (if truthy result then
       (case py_get result ''success'' PNone of
          Inl e \<Rightarrow> (Failed e, tr)
        | Inr ok \<Rightarrow>
            if truthy ok then (Rerun, tr @ [StMarkdown (html_div ''success-message'' banner), Sleep pause])
            else (Done, tr))
     else (Done, tr))"

definition required_fields_msg :: string where
  "required_fields_msg = ''Please fill in all required fields (*)''"

definition add_book_submit :: "environment \<Rightarrow> book_form \<Rightarrow> bool \<Rightarrow> event list
    \<Rightarrow> page_exit \<times> event list" where
  "add_book_submit env f submitted tr =
    (if submitted then
       if title f \<noteq> [] \<and> author f \<noteq> [] \<and> category f \<noteq> [] then
         (let (result, tr1) = add_book env api (book_data f) tr in
          after_write result (check_mark @ '' Book added successfully!'') 2 tr1)
       else (Done, tr @ [StError required_fields_msg])
     else (Done, tr))"

record user_form =
  name :: string
  email :: string
  user_type :: string
  department :: string

definition user_data :: "user_form \<Rightarrow> pyval" where
  "user_data f =
     PDict [(''name'', PStr (name f)),
            (''email'', PStr (email f)),
            (''userType'', PStr (user_type f)),
            (''department'', opt_text (department f))]"

definition add_user_submit :: "environment \<Rightarrow> user_form \<Rightarrow> bool \<Rightarrow> event list
    \<Rightarrow> page_exit \<times> event list" where
  "add_user_submit env f submitted tr =
    (if submitted then
       if name f \<noteq> [] \<and> email f \<noteq> [] \<and> user_type f \<noteq> [] then
         (let (result, tr1) = add_user env api (user_data f) tr in
          after_write result (check_mark @ '' User added successfully!'') 2 tr1)
       else (Done, tr @ [StError required_fields_msg])
     else (Done, tr))"

section \<open>Frames\<close>

text \<open>
  \<^verbatim>\<open>pd.DataFrame(data)\<close> of a list of JSON objects: one row for each object, and the
  columns are the keys in the order in which they first appear. A cell whose object
  lacks the column holds NaN. A frame is empty when it has no row or no column.
  pandas is not part of the repository; this is its behaviour as far as the program
  relies on it. The conversion of the integers of a column with missing cells to floats
  is not modelled.
\<close>

type_synonym row = "(string \<times> pyval) list"

record dataframe =
  columns :: "string list"
  records :: "row list"

fun add_columns :: "string list \<Rightarrow> string list \<Rightarrow> string list" where
  "add_columns cols [] = cols"
| "add_columns cols (k # ks) = add_columns (if k \<in> set cols then cols else cols @ [k]) ks"

fun columns_of :: "string list \<Rightarrow> row list \<Rightarrow> string list" where
  "columns_of cols [] = cols"
| "columns_of cols (r # rs) = columns_of (add_columns cols (map fst r)) rs"

fun dict_items :: "pyval \<Rightarrow> row" where
  "dict_items (PDict d) = d"
| "dict_items v = []"

text \<open>
  The constructor on a parsed payload. pandas raises \<^verbatim>\<open>ValueError\<close> for a scalar and
  for a dict of scalars and gives the empty frame for None. A list with an element that
  is no object and a dict of lists give frames that are outside the model; the model
  answers \<open>ValueError\<close> for them too.
\<close>

fun DataFrame :: "pyval \<Rightarrow> py_exception + dataframe" where
  "DataFrame (PList xs) =
     (if list_all isinstance_dict xs
      then Inr \<lparr>columns = columns_of [] (map dict_items xs), records = map dict_items xs\<rparr>
      else Inl ValueError)"
| "DataFrame PNone = Inr \<lparr>columns = [], records = []\<rparr>"
| "DataFrame v = Inl ValueError"

definition empty_frame :: "dataframe \<Rightarrow> bool" where
  "empty_frame df = (columns df = [] \<or> records df = [])"

definition cell :: "row \<Rightarrow> string \<Rightarrow> pyval" where
  "cell r c = (case map_of r c of None \<Rightarrow> PNaN | Some v \<Rightarrow> v)"

text \<open>\<^verbatim>\<open>row[c]\<close> and \<^verbatim>\<open>row.get(c, default)\<close> on a row of \<^verbatim>\<open>df.iterrows()\<close>, and the
  column \<^verbatim>\<open>df[c]\<close>: what is missing is the column, never the cell.\<close>

definition row_item :: "dataframe \<Rightarrow> row \<Rightarrow> string \<Rightarrow> py_exception + pyval" where
  "row_item df r c = (if c \<in> set (columns df) then Inr (cell r c) else Inl (KeyError c))"

definition row_get :: "dataframe \<Rightarrow> row \<Rightarrow> string \<Rightarrow> pyval \<Rightarrow> pyval" where
  "row_get df r c dflt = (if c \<in> set (columns df) then cell r c else dflt)"

definition column :: "dataframe \<Rightarrow> string \<Rightarrow> py_exception + pyval list" where
  "column df c =
     (if c \<in> set (columns df) then Inr (map (\<lambda>r. cell r c) (records df)) else Inl (KeyError c))"

text \<open>
  The dtype of a column is numeric when its cells are numbers, with None and missing
  cells read as NaN, and at least one is a number. A column of booleans has dtype bool,
  and every other column has dtype object; neither is selected by
  \<^verbatim>\<open>select_dtypes(include=['number'])\<close>.
\<close>

fun is_number :: "pyval \<Rightarrow> bool" where
  "is_number (PNum n) = True"
| "is_number v = False"

fun number_or_missing :: "pyval \<Rightarrow> bool" where
  "number_or_missing (PNum n) = True"
| "number_or_missing PNaN = True"
| "number_or_missing PNone = True"
| "number_or_missing v = False"

definition numeric_cells :: "pyval list \<Rightarrow> bool" where
  "numeric_cells vs = (list_all number_or_missing vs \<and> list_ex is_number vs)"

definition numeric_column :: "dataframe \<Rightarrow> string \<Rightarrow> bool" where
  "numeric_column df c = numeric_cells (map (\<lambda>r. cell r c) (records df))"

definition numeric_columns :: "dataframe \<Rightarrow> string list" where
  "numeric_columns df = filter (numeric_column df) (columns df)"

text \<open>Sequencing of steps that may raise, and a loop over a list that stops at the first
  exception.\<close>

definition py_bind :: "py_exception + 'a \<Rightarrow> ('a \<Rightarrow> py_exception + 'b) \<Rightarrow> py_exception + 'b" where
  "py_bind m f = (case m of Inl e \<Rightarrow> Inl e | Inr x \<Rightarrow> f x)"

fun map_raising :: "('a \<Rightarrow> py_exception + 'b) \<Rightarrow> 'a list \<Rightarrow> py_exception + 'b list" where
  "map_raising f [] = Inr []"
| "map_raising f (x # xs) =
     (case f x of
        Inl e \<Rightarrow> Inl e
      | Inr y \<Rightarrow> (case map_raising f xs of Inl e \<Rightarrow> Inl e | Inr ys \<Rightarrow> Inr (y # ys)))"

section \<open>Transactions page\<close>

subsection \<open>Borrow a book: the books on offer\<close>

text \<open>
  \<^verbatim>\<open>df_books['availableCopies'] > 0\<close>, cell by cell. In a numeric column None has become
  NaN, and a comparison with NaN is false. In a column of another dtype the cells are
  compared as Python objects, where None, a string, a list and a dict raise
  \<^verbatim>\<open>TypeError\<close>.
\<close>

fun greater_than_zero :: "bool \<Rightarrow> pyval \<Rightarrow> py_exception + bool" where
  "greater_than_zero numeric (PNum n) = Inr (0 < n)"
| "greater_than_zero numeric PNaN = Inr False"
| "greater_than_zero numeric (PBool b) = Inr b"
| "greater_than_zero numeric PNone = (if numeric then Inr False else Inl TypeError)"
| "greater_than_zero numeric v = Inl TypeError"

definition available_books :: "dataframe \<Rightarrow> py_exception + dataframe" where
  "available_books df_books =
     py_bind (column df_books ''availableCopies'') (\<lambda>copies.
     py_bind (map_raising (greater_than_zero (numeric_cells copies)) copies) (\<lambda>mask.
       Inr (df_books\<lparr>records := map fst (filter snd (zip (records df_books) mask))\<rparr>)))"

text \<open>
  \<^verbatim>\<open>available_books['title'] + " by " + available_books['author']\<close>: pandas adds the
  cells that are not missing and leaves NaN where one is; a string plus anything but a
  string raises \<^verbatim>\<open>TypeError\<close>.
\<close>

fun add_text :: "pyval \<Rightarrow> string \<Rightarrow> py_exception + pyval" where
  "add_text (PStr s) t = Inr (PStr (s @ t))"
| "add_text PNaN t = Inr PNaN"
| "add_text PNone t = Inr PNaN"
| "add_text v t = Inl TypeError"

fun add_cells :: "pyval \<Rightarrow> pyval \<Rightarrow> py_exception + pyval" where
  "add_cells PNaN v = Inr PNaN"
| "add_cells (PStr s) (PStr t) = Inr (PStr (s @ t))"
| "add_cells (PStr s) PNaN = Inr PNaN"
| "add_cells (PStr s) PNone = Inr PNaN"
| "add_cells u v = Inl TypeError"

definition book_options :: "dataframe \<Rightarrow> py_exception + pyval list" where
  "book_options available =
     py_bind (column available ''title'') (\<lambda>titles.
     py_bind (map_raising (\<lambda>v. add_text v '' by '') titles) (\<lambda>lefts.
     py_bind (column available ''author'') (\<lambda>authors.
       map_raising (\<lambda>(u, v). add_cells u v) (zip lefts authors))))"

text \<open>
  The book selector of \<^verbatim>\<open>borrow_book_form\<close>: its options, or \<open>None\<close> when the form
  is not drawn because no book is available or there is no user.
\<close>

definition book_selector :: "dataframe \<Rightarrow> dataframe \<Rightarrow> py_exception + pyval list option" where
  "book_selector df_books df_users =
     py_bind (available_books df_books) (\<lambda>available.
       if \<not> empty_frame available \<and> \<not> empty_frame df_users
       then py_bind (book_options available) (\<lambda>opts. Inr (Some opts))
       else Inr None)"

subsection \<open>Return a book: the transaction selector\<close>

text \<open>\<^verbatim>\<open>row[col][key] if isinstance(row[col], dict) else 'Unknown'\<close>\<close>

definition nested_field :: "dataframe \<Rightarrow> row \<Rightarrow> string \<Rightarrow> string \<Rightarrow> py_exception + pyval" where
  "nested_field df r col key =
     py_bind (row_item df r col) (\<lambda>v.
       if isinstance_dict v then py_item v key else Inr (PStr ''Unknown''))"

definition transaction_option :: "environment \<Rightarrow> dataframe \<Rightarrow> row \<Rightarrow> py_exception + string" where
  "transaction_option env df r =
     py_bind (nested_field df r ''bookId'' ''title'') (\<lambda>book_title.
     py_bind (nested_field df r ''userId'' ''name'') (\<lambda>user_name.
       let due_date = row_get df r ''dueDate'' (PStr []) in
       py_bind (row_item df r ''transactionId'') (\<lambda>tid.
         Inr (py_str env tid @ '' - '' @ py_str env book_title @ '' (User: ''
                @ py_str env user_name @ '', Due: '' @ py_str env due_date @ '')''))))"

definition transaction_options :: "environment \<Rightarrow> dataframe \<Rightarrow> py_exception + string list" where
  "transaction_options env df = map_raising (transaction_option env df) (records df)"

text \<open>
  \<^verbatim>\<open>s.split(sep)\<close>: the pieces between the occurrences of the separator, found from
  the left without overlap. An empty separator raises \<^verbatim>\<open>ValueError\<close>.
\<close>

function split_from :: "string \<Rightarrow> string \<Rightarrow> string \<Rightarrow> string list" where
  "split_from sep acc s =
     (if s = [] then [acc]
      else if sep \<noteq> [] \<and> prefix sep s then acc # split_from sep [] (drop (length sep) s)
      else split_from sep (acc @ [hd s]) (tl s))"
  by pat_completeness auto
termination
  by (relation "measure (\<lambda>(sep, acc, s). length s)") auto

definition py_split :: "string \<Rightarrow> string \<Rightarrow> py_exception + string list" where
  "py_split s sep = (if sep = [] then Inl ValueError else Inr (split_from sep [] s))"

definition first_item :: "'a list \<Rightarrow> py_exception + 'a" where
  "first_item xs = (case xs of [] \<Rightarrow> Inl IndexError | x # _ \<Rightarrow> Inr x)"

text \<open>\<^verbatim>\<open>selected_transaction.split(" - ")[0] if selected_transaction else ""\<close>\<close>

definition parse_transaction_id :: "string \<Rightarrow> py_exception + string" where
  "parse_transaction_id selected_transaction =
     (if selected_transaction \<noteq> []
      then py_bind (py_split selected_transaction '' - '') first_item
      else Inr [])"

subsection \<open>The tables of all and of overdue transactions\<close>

definition transaction_row :: "dataframe \<Rightarrow> row \<Rightarrow> py_exception + row" where
  "transaction_row df r =
     py_bind (row_item df r ''transactionId'') (\<lambda>tid.
     py_bind (nested_field df r ''bookId'' ''title'') (\<lambda>book.
     py_bind (nested_field df r ''userId'' ''name'') (\<lambda>user.
     py_bind (row_item df r ''status'') (\<lambda>status.
     py_bind (row_item df r ''borrowDate'') (\<lambda>borrow_date.
       Inr [(''Transaction ID'', tid),
            (''Book'', book),
            (''User'', user),
            (''Status'', status),
            (''Borrow Date'', borrow_date),
            (''Due Date'', row_get df r ''dueDate'' (PStr [])),
            (''Return Date'', row_get df r ''returnDate'' (PStr []))])))))"

definition overdue_row :: "dataframe \<Rightarrow> row \<Rightarrow> py_exception + row" where
  "overdue_row df r =
     py_bind (row_item df r ''transactionId'') (\<lambda>tid.
     py_bind (nested_field df r ''bookId'' ''title'') (\<lambda>book.
     py_bind (nested_field df r ''userId'' ''name'') (\<lambda>user.
       Inr [(''Transaction ID'', tid),
            (''Book'', book),
            (''User'', user),
            (''Due Date'', row_get df r ''dueDate'' (PStr [])),
            (''Overdue Days'', row_get df r ''overdueDays'' (PStr ''N/A''))])))"

definition transactions_table :: "dataframe \<Rightarrow> py_exception + row list" where
  "transactions_table df = map_raising (transaction_row df) (records df)"

definition overdue_table :: "dataframe \<Rightarrow> py_exception + row list" where
  "overdue_table df = map_raising (overdue_row df) (records df)"

section \<open>Analytics page: the column that is plotted\<close>

text \<open>
  The choice of \<^verbatim>\<open>y_column\<close> for the chart of the most borrowed books.
  \<^verbatim>\<open>df.columns[1]\<close> raises \<^verbatim>\<open>IndexError\<close> on a frame with one column.
\<close>

definition select_y_column :: "dataframe \<Rightarrow> py_exception + string" where
  "select_y_column df_most_borrowed =
     (if ''borrowCount'' \<in> set (columns df_most_borrowed) then Inr ''borrowCount''
      else if ''count'' \<in> set (columns df_most_borrowed) then Inr ''count''
      else
        (case numeric_columns df_most_borrowed of
           c # cs \<Rightarrow> Inr c
         | [] \<Rightarrow>
            (case columns df_most_borrowed of
               c0 # c1 # cs \<Rightarrow> Inr c1
             | _ \<Rightarrow> Inl IndexError)))"

section \<open>Dashboard page\<close>

subsection \<open>Recent activity\<close>

text \<open>
  \<^verbatim>\<open>df_transactions[['transactionId', 'status', 'borrowDate']]\<close> raises
  \<^verbatim>\<open>KeyError\<close> when one of the columns is missing.
\<close>

fun missing_column :: "dataframe \<Rightarrow> string list \<Rightarrow> string option" where
  "missing_column df [] = None"
| "missing_column df (c # cs) = (if c \<in> set (columns df) then missing_column df cs else Some c)"

definition select_columns :: "dataframe \<Rightarrow> string list \<Rightarrow> py_exception + dataframe" where
  "select_columns df cs =
     (case missing_column df cs of
        Some c \<Rightarrow> Inl (KeyError c)
      | None \<Rightarrow> Inr \<lparr>columns = cs, records = map (\<lambda>r. map (\<lambda>c. (c, cell r c)) cs) (records df)\<rparr>)"

text \<open>\<^verbatim>\<open>display_df[new] = values\<close>: a new last column.\<close>

definition with_column :: "dataframe \<Rightarrow> string \<Rightarrow> pyval list \<Rightarrow> dataframe" where
  "with_column df c vs =
     \<lparr>columns = columns df @ [c], records = map (\<lambda>(r, v). r @ [(c, v)]) (zip (records df) vs)\<rparr>"

text \<open>
  The projection of a nested column in the recent-activity table: only the first row is
  tested (\<^verbatim>\<open>isinstance(df[col].iloc[0], dict)\<close>), then \<^verbatim>\<open>x.get(key, 'N/A')\<close> is
  applied to every cell of the column.
\<close>

definition add_projection :: "dataframe \<Rightarrow> dataframe \<Rightarrow> string \<Rightarrow> string \<Rightarrow> string
    \<Rightarrow> py_exception + dataframe" where
  "add_projection df display_df col key new =
     (if col \<in> set (columns df) then
        py_bind (first_item (records df)) (\<lambda>r0.
          if isinstance_dict (cell r0 col) then
            py_bind (column df col) (\<lambda>vs.
            py_bind (map_raising (\<lambda>x. py_get x key (PStr ''N/A'')) vs) (\<lambda>ws.
              Inr (with_column display_df new ws)))
          else Inr display_df)
      else Inr display_df)"

definition recent_activity :: "dataframe \<Rightarrow> py_exception + dataframe" where
  "recent_activity df_transactions =
     py_bind (select_columns df_transactions [''transactionId'', ''status'', ''borrowDate''])
       (\<lambda>display_df.
     py_bind (add_projection df_transactions display_df ''bookId'' ''title'' ''Book'')
       (\<lambda>display_df.
          add_projection df_transactions display_df ''userId'' ''name'' ''User''))"

definition cells_of :: "dataframe \<Rightarrow> pyval list list" where
  "cells_of df = map (\<lambda>r. map (\<lambda>c. cell r c) (columns df)) (records df)"

subsection \<open>The page\<close>

definition brand_header :: string where
  "brand_header = html_div ''epcet-brand''
     ([CHR 0xF0, CHR 0x9F, CHR 0x8F, CHR 0x9B, CHR 0xEF, CHR 0xB8, CHR 0x8F]
      @ '' EPCET LIBRARY MANAGEMENT SYSTEM'')"

definition not_connected_msg :: string where
  "not_connected_msg = [CHR 0xF0, CHR 0x9F, CHR 0x94, CHR 0x8C]
     @ '' Backend server is not connected. Please make sure the server is running on localhost:5001''"

definition overview_header :: string where
  "overview_header = html_div ''sub-header''
     ([CHR 0xF0, CHR 0x9F, CHR 0x93, CHR 0x8A] @ '' Dashboard Overview'')"

definition activity_header :: string where
  "activity_header = html_div ''sub-header''
     ([CHR 0xF0, CHR 0x9F, CHR 0x94, CHR 0x84] @ '' Recent Activity'')"

definition categories_title :: string where
  "categories_title = [CHR 0xF0, CHR 0x9F, CHR 0x93, CHR 0x9A] @ '' Popular Book Categories''"

definition user_types_title :: string where
  "user_types_title = [CHR 0xF0, CHR 0x9F, CHR 0x91, CHR 0xA5] @ '' Borrowing by User Type''"

fun st_metrics :: "pyval \<Rightarrow> (string \<times> string) list \<Rightarrow> event list
    \<Rightarrow> (py_exception + unit) \<times> event list" where
  "st_metrics data [] tr = (Inr (), tr)"
| "st_metrics data ((label, key) # rest) tr =
     (case py_item data key of
        Inl e \<Rightarrow> (Inl e, tr)
      | Inr v \<Rightarrow> st_metrics data rest (tr @ [StMetric label v]))"

text \<open>
  A chart of a list of records by two of its columns, drawn when the list is not empty.
  plotly is not part of the repository; of its behaviour only the \<^verbatim>\<open>ValueError\<close> for a
  column that the frame lacks is modelled.
\<close>

definition chart :: "pyval \<Rightarrow> string \<Rightarrow> string \<Rightarrow> string \<Rightarrow> event list
    \<Rightarrow> (py_exception + unit) \<times> event list" where
  "chart data c1 c2 chart_title tr =
     (if truthy data then
        (case DataFrame data of
           Inl e \<Rightarrow> (Inl e, tr)
         | Inr df \<Rightarrow>
            if c1 \<in> set (columns df) \<and> c2 \<in> set (columns df)
            then (Inr (), tr @ [StPlotlyChart chart_title data])
            else (Inl ValueError, tr))
      else (Inr (), tr))"

definition recent_activity_block :: "environment \<Rightarrow> event list \<Rightarrow> page_exit \<times> event list" where
  "recent_activity_block env tr =
    (let tr1 = tr @ [StMarkdown activity_header];
         (transactions, tr2) = get_transactions env api 1 10 [] tr1
     in if truthy transactions then
          (case py_get transactions ''success'' PNone of
             Inl e \<Rightarrow> (Failed e, tr2)
           | Inr ok \<Rightarrow>
              if truthy ok then
                (case py_bind (py_item transactions ''data'') DataFrame of
                   Inl e \<Rightarrow> (Failed e, tr2)
                 | Inr df_transactions \<Rightarrow>
                    if \<not> empty_frame df_transactions then
                      (case recent_activity df_transactions of
                         Inl e \<Rightarrow> (Failed e, tr2)
                       | Inr display_df \<Rightarrow>
                           (Done, tr2 @ [StDataframe (columns display_df) (cells_of display_df)]))
                    else (Done, tr2))
              else (Done, tr2))
        else (Done, tr2))"

definition overview_metrics :: "(string \<times> string) list" where
  "overview_metrics =
     [(''Total Books'', ''totalBooks''),
      (''Available Books'', ''availableBooks''),
      (''Total Users'', ''totalUsers''),
      (''Active Borrows'', ''activeBorrows''),
      (''Total Transactions'', ''totalTransactions''),
      (''Overdue Books'', ''overdueBooks'')]"

definition dashboard_body :: "environment \<Rightarrow> pyval \<Rightarrow> event list \<Rightarrow> page_exit \<times> event list" where
  "dashboard_body env stats tr =
    (case py_bind (py_item stats ''data'') (\<lambda>d. py_item d ''overview'') of
       Inl e \<Rightarrow> (Failed e, tr)
     | Inr data \<Rightarrow>
        (case st_metrics data overview_metrics tr of
           (Inl e, tr1) \<Rightarrow> (Failed e, tr1)
         | (Inr u, tr1) \<Rightarrow>
            (case py_bind (py_item stats ''data'') (\<lambda>d. py_item d ''popularCategories'') of
               Inl e \<Rightarrow> (Failed e, tr1)
             | Inr categories_data \<Rightarrow>
                (case chart categories_data ''count'' ''_id'' categories_title tr1 of
                   (Inl e, tr2) \<Rightarrow> (Failed e, tr2)
                 | (Inr u, tr2) \<Rightarrow>
                    (case py_bind (py_item stats ''data'') (\<lambda>d. py_item d ''userTypeStats'') of
                       Inl e \<Rightarrow> (Failed e, tr2)
                     | Inr user_stats \<Rightarrow>
                        (case chart user_stats ''_id'' ''count'' user_types_title tr2 of
                           (Inl e, tr3) \<Rightarrow> (Failed e, tr3)
                         | (Inr u, tr3) \<Rightarrow> recent_activity_block env tr3))))))"

definition main_page :: "environment \<Rightarrow> event list \<Rightarrow> page_exit \<times> event list" where
  "main_page env tr =
    (let tr0 = tr @ [StMarkdown brand_header] in
     case check_connection env tr0 of
       (Inl e, tr1) \<Rightarrow> (Failed e, tr1)
     | (Inr connected, tr1) \<Rightarrow>
        if \<not> connected then (Done, tr1 @ [StError not_connected_msg])
        else
          (let tr2 = tr1 @ [StMarkdown overview_header];
               (stats, tr3) = get_dashboard_stats env api tr2
           in if truthy stats then
                (case py_get stats ''success'' PNone of
                   Inl e \<Rightarrow> (Failed e, tr3)
                 | Inr ok \<Rightarrow> if truthy ok then dashboard_body env stats tr3 else (Done, tr3))
              else (Done, tr3)))"

section \<open>Notions of the statements and example data\<close>

text \<open>A response of status 200 whose envelope refuses the operation, a 404 with an error
  message, and a 502 that carries no JSON.\<close>

definition refusal :: response where
  "refusal =
     \<lparr>status_code = 200,
      json = Some (PDict [(''success'', PBool False), (''error'', PStr ''ISBN already exists'')]),
      text_of = ''{'' @ [CHR 0x22] @ ''success'' @ [CHR 0x22] @ '': false, '' @ [CHR 0x22]
                @ ''error'' @ [CHR 0x22] @ '': '' @ [CHR 0x22] @ ''ISBN already exists''
                @ [CHR 0x22] @ ''}''\<rparr>"

definition not_found :: response where
  "not_found =
     \<lparr>status_code = 404,
      json = Some (PDict [(''success'', PBool False), (''error'', PStr ''Book not found'')]),
      text_of = ''{'' @ [CHR 0x22] @ ''success'' @ [CHR 0x22] @ '': false, '' @ [CHR 0x22]
                @ ''error'' @ [CHR 0x22] @ '': '' @ [CHR 0x22] @ ''Book not found''
                @ [CHR 0x22] @ ''}''\<rparr>"

definition bad_gateway :: response where
  "bad_gateway = \<lparr>status_code = 502, json = None, text_of = ''<html>Bad Gateway</html>''\<rparr>"

text \<open>Filled forms: a book with its required fields, one without a title, and a user.\<close>

definition dune :: book_form where
  "dune = \<lparr>title = ''Dune'', author = ''Frank Herbert'', category = ''Fiction'', isbn = [],
            total_copies = 3, published_year = 1965, description = []\<rparr>"

definition untitled :: book_form where
  "untitled = \<lparr>title = [], author = ''Frank Herbert'', category = ''Fiction'', isbn = [],
                total_copies = 3, published_year = 1965, description = []\<rparr>"

definition ann :: user_form where
  "ann = \<lparr>name = ''Ann'', email = ''ann@epcet.edu'', user_type = ''student'',
           department = []\<rparr>"

text \<open>The events that are an error banner or a line on the console.\<close>

fun error_or_print :: "event \<Rightarrow> bool" where
  "error_or_print (StError s) = True"
| "error_or_print (Print s) = True"
| "error_or_print e = False"

text \<open>A health answer that reports OK, and one that reports a failure.\<close>

definition healthy :: response where
  "healthy = \<lparr>status_code = 200, json = Some (PDict [(''status'', PStr ''OK'')]),
               text_of = ''{'' @ [CHR 0x22] @ ''status'' @ [CHR 0x22] @ '': '' @ [CHR 0x22]
                 @ ''OK'' @ [CHR 0x22] @ ''}''\<rparr>"

definition degraded :: response where
  "degraded = \<lparr>status_code = 200, json = Some (PDict [(''status'', PStr ''ERROR'')]),
                text_of = ''{'' @ [CHR 0x22] @ ''status'' @ [CHR 0x22] @ '': '' @ [CHR 0x22]
                  @ ''ERROR'' @ [CHR 0x22] @ ''}''\<rparr>"

text \<open>
  A book on offer has a number greater than zero in \<^verbatim>\<open>availableCopies\<close>; its entry in
  the selector reads \<^verbatim>\<open>title by author\<close>.
\<close>

definition has_copies :: "row \<Rightarrow> bool" where
  "has_copies r = (case cell r ''availableCopies'' of PNum n \<Rightarrow> 0 < n | _ \<Rightarrow> False)"

fun str_of :: "pyval \<Rightarrow> string" where
  "str_of (PStr s) = s"
| "str_of v = []"

fun is_str :: "pyval \<Rightarrow> bool" where
  "is_str (PStr s) = True"
| "is_str v = False"

definition book_label :: "row \<Rightarrow> pyval" where
  "book_label r = PStr (str_of (cell r ''title'') @ '' by '' @ str_of (cell r ''author''))"

text \<open>Three books, one of them with no copy left, and one user.\<close>

definition three_books :: dataframe where
  "three_books =
     \<lparr>columns = [''_id'', ''title'', ''author'', ''availableCopies''],
      records =
        [[(''_id'', PStr ''b1''), (''title'', PStr ''Dune''), (''author'', PStr ''Herbert''),
          (''availableCopies'', PNum 2)],
         [(''_id'', PStr ''b2''), (''title'', PStr ''Emma''), (''author'', PStr ''Austen''),
          (''availableCopies'', PNum 0)],
         [(''_id'', PStr ''b3''), (''title'', PStr ''Ulysses''), (''author'', PStr ''Joyce''),
          (''availableCopies'', PNum 1)]]\<rparr>"

definition one_user :: dataframe where
  "one_user =
     \<lparr>columns = [''_id'', ''name'', ''userType''],
      records = [[(''_id'', PStr ''u1''), (''name'', PStr ''Ann''), (''userType'', PStr ''student'')]]\<rparr>"

text \<open>
  Transactions: one with its book and user nested, one whose identifier ends in a blank
  and a hyphen, and one whose book and user are plain identifiers.
\<close>

definition loan_columns :: "string list" where
  "loan_columns =
     [''transactionId'', ''bookId'', ''userId'', ''status'', ''borrowDate'', ''dueDate'']"

definition loan :: "string \<Rightarrow> pyval \<Rightarrow> pyval \<Rightarrow> row" where
  "loan tid book user =
     [(''transactionId'', PStr tid), (''bookId'', book), (''userId'', user),
      (''status'', PStr ''borrowed''), (''borrowDate'', PStr ''2024-04-17''),
      (''dueDate'', PStr ''2024-05-01'')]"

definition dune_book :: pyval where
  "dune_book = PDict [(''_id'', PStr ''b1''), (''title'', PStr ''Dune'')]"

definition ann_user :: pyval where
  "ann_user = PDict [(''_id'', PStr ''u1''), (''name'', PStr ''Ann'')]"

definition nested_loan :: row where
  "nested_loan = loan ''T1'' dune_book ann_user"

definition odd_loan :: row where
  "odd_loan = loan ''T1 -'' dune_book ann_user"

definition flat_loan :: row where
  "flat_loan = loan ''T2'' (PStr ''b1'') (PStr ''u1'')"

definition loans :: "row list \<Rightarrow> dataframe" where
  "loans rs = \<lparr>columns = loan_columns, records = rs\<rparr>"

text \<open>
  Payloads of the most-borrowed endpoint without \<^verbatim>\<open>borrowCount\<close>: one whose only
  numeric field is \<^verbatim>\<open>total\<close>, and one that also has a \<^verbatim>\<open>count\<close> field holding
  text.
\<close>

definition totals_payload :: pyval where
  "totals_payload =
     PList [PDict [(''title'', PStr ''Dune''), (''total'', PNum 7)],
            PDict [(''title'', PStr ''Emma''), (''total'', PNum 4)]]"

definition totals_frame :: dataframe where
  "totals_frame =
     \<lparr>columns = [''title'', ''total''],
      records = [[(''title'', PStr ''Dune''), (''total'', PNum 7)],
                 [(''title'', PStr ''Emma''), (''total'', PNum 4)]]\<rparr>"

definition labelled_payload :: pyval where
  "labelled_payload =
     PList [PDict [(''title'', PStr ''Dune''), (''count'', PStr ''seven''), (''total'', PNum 7)],
            PDict [(''title'', PStr ''Emma''), (''count'', PStr ''four''), (''total'', PNum 4)]]"

definition labelled_frame :: dataframe where
  "labelled_frame =
     \<lparr>columns = [''title'', ''count'', ''total''],
      records = [[(''title'', PStr ''Dune''), (''count'', PStr ''seven''), (''total'', PNum 7)],
                 [(''title'', PStr ''Emma''), (''count'', PStr ''four''), (''total'', PNum 4)]]\<rparr>"

text \<open>
  A service for the dashboard: it reports OK, gives the overview counts with no chart
  data, and lists two transactions, the first with its book and user nested and the
  second with plain identifiers. The raw text of a response, which the program reads
  only for an error status, is left empty.
\<close>

definition overview_stats :: pyval where
  "overview_stats =
     PDict [(''success'', PBool True),
            (''data'',
               PDict [(''overview'',
                         PDict [(''totalBooks'', PNum 3), (''availableBooks'', PNum 2),
                                (''totalUsers'', PNum 1), (''activeBorrows'', PNum 2),
                                (''totalTransactions'', PNum 2), (''overdueBooks'', PNum 0)]),
                      (''popularCategories'', PList []),
                      (''userTypeStats'', PList [])])]"

definition mixed_transactions :: pyval where
  "mixed_transactions =
     PDict [(''success'', PBool True),
            (''data'', PList [PDict nested_loan, PDict flat_loan])]"

definition dashboard_service :: environment where
  "dashboard_service =
     \<lparr>backend = (\<lambda>tr m url d.
         Responds \<lparr>status_code = 200,
                   json = Some (if url = API_BASE @ ''/health'' then PDict [(''status'', PStr ''OK'')]
                                else if url = API_BASE @ ''/analytics/dashboard'' then overview_stats
                                else mixed_transactions),
                   text_of = []\<rparr>),
      repr_of = (\<lambda>v. ''<repr>''),
      exc_text = (\<lambda>e. ''<exception>'')\<rparr>"

section \<open>Basic facts\<close>

lemma py_bind_Inr: "py_bind (Inr x) f = f x"
  by (simp add: py_bind_def)

lemma py_bind_Inl: "py_bind (Inl e) f = Inl e"
  by (simp add: py_bind_def)

lemma map_raising_total:
  "(\<And>x. x \<in> set xs \<Longrightarrow> f x = Inr (g x)) \<Longrightarrow> map_raising f xs = Inr (map g xs)"
  by (induction xs) auto

lemma requests_of_append: "requests_of (xs @ ys) = requests_of xs @ requests_of ys"
  by (simp add: requests_of_def)

lemma requests_of_except: "requests_of (except_clauses env e) = []"
  by (simp add: except_clauses_def requests_of_def)

section \<open>Properties of the API client\<close>

lemma request_try_known:
  assumes "known_method m"
  shows "request_try env self ep m d tr =
    (let url = base_url self @ ep; tr1 = tr @ [HttpRequest m url (sent_data m d)] in
     case backend env tr m url (sent_data m d) of
       Raises e \<Rightarrow> (Inl e, tr1)
     | Responds r \<Rightarrow>
         if status_code r = 200 then
           (case json r of None \<Rightarrow> (Inl JSONDecodeError, tr1) | Some v \<Rightarrow> (Inr v, tr1))
         else
           (case json r of
              None \<Rightarrow> (Inl JSONDecodeError, tr1)
            | Some body \<Rightarrow>
               (case py_get body ''error'' (PStr ''Unknown error'') of
                  Inl e \<Rightarrow> (Inl e, tr1)
                | Inr error_msg \<Rightarrow>
                   (Inr PNone,
                    tr1 @ [StError (''API Error ('' @ str_int (status_code r) @ ''): ''
                             @ py_str env error_msg),
                           Print (''Full error response: '' @ text_of r)]))))"
  using assms
  by (auto simp: request_try_def known_method_def sent_data_def send_def Let_def
           split: outcome.splits)

lemma request_try_unknown:
  "\<not> known_method m \<Longrightarrow> request_try env self ep m d tr = (Inl UnboundLocalError, tr)"
  by (simp add: request_try_def known_method_def)

lemma requests_of_request_try:
  "requests_of (snd (request_try env self ep m d tr)) =
     requests_of tr @
     (if known_method m then [HttpRequest m (base_url self @ ep) (sent_data m d)] else [])"
proof (cases "known_method m")
  case True
  then show ?thesis
    by (simp add: request_try_known Let_def requests_of_def
             split: outcome.splits option.splits sum.splits)
next
  case False
  then show ?thesis by (simp add: request_try_unknown)
qed

lemma requests_of_make_request:
  "requests_of (snd (make_request env self ep m d tr)) =
     requests_of tr @
     (if known_method m then [HttpRequest m (base_url self @ ep) (sent_data m d)] else [])"
  using requests_of_request_try [of env self ep m d tr]
  by (auto simp: make_request_def requests_of_append requests_of_except split: prod.splits sum.splits)

text \<open>
  Claim C1, as amended. For a response of status 200 whose body is JSON,
  \<^verbatim>\<open>_make_request\<close> does not look at the \<^verbatim>\<open>success\<close> flag: it returns the parsed body
  to the caller, whatever the flag says, and adds nothing to the page but the request
  itself. The flag is read by the caller: on a body with \<^verbatim>\<open>success: false\<close> the test
  \<^verbatim>\<open>result and result.get('success')\<close> that follows a write skips the success banner
  and the rerun, and shows nothing.
\<close>

theorem make_request_ok_returns_body:
  assumes "known_method m"
    and "backend env tr m (base_url self @ ep) (sent_data m d) = Responds r"
    and "status_code r = 200"
    and "json r = Some body"
  shows "make_request env self ep m d tr =
           (body, tr @ [HttpRequest m (base_url self @ ep) (sent_data m d)])
         \<and> (py_get body ''success'' PNone = Inr (PBool False)
              \<longrightarrow> after_write body banner pause tr' = (Done, tr'))"
  using assms by (simp add: make_request_def request_try_known Let_def after_write_def)

theorem make_request_ok_returns_body_witness:
  "make_request (answering (Responds refusal)) api ''/books'' ''POST'' (PDict []) [] =
     (PDict [(''success'', PBool False), (''error'', PStr ''ISBN already exists'')],
      [HttpRequest ''POST'' ''http://localhost:5001/api/books'' (PDict [])])
   \<and> after_write (PDict [(''success'', PBool False), (''error'', PStr ''ISBN already exists'')])
        ''Book added'' 2 [] = (Done, [])"
  using make_request_ok_returns_body [of "''POST''" "answering (Responds refusal)" "[]" api
      "''/books''" "PDict []" refusal
      "PDict [(''success'', PBool False), (''error'', PStr ''ISBN already exists'')]"
      "''Book added''" 2 "[]"]
  by (simp add: known_method_def answering_def refusal_def sent_data_def api_def API_BASE_def)

text \<open>
  The claim as it was stated fails: the response \<open>refusal\<close> has status 200 and
  \<^verbatim>\<open>success: false\<close>, and \<^verbatim>\<open>_make_request\<close> returns its body, not None, and puts no
  error on the page.
\<close>

theorem make_request_refusal_counterexample:
  "fst (make_request (answering (Responds refusal)) api ''/books'' ''POST'' (PDict []) []) \<noteq> PNone
   \<and> snd (make_request (answering (Responds refusal)) api ''/books'' ''POST'' (PDict []) []) =
       [HttpRequest ''POST'' ''http://localhost:5001/api/books'' (PDict [])]"
  by (simp add: make_request_def request_try_def send_def answering_def refusal_def api_def
        API_BASE_def)

text \<open>
  Claim C8. For a response whose status is not 2xx, \<^verbatim>\<open>_make_request\<close> returns None
  and shows one error banner: built from the \<^verbatim>\<open>error\<close> field of the body when the
  body is a JSON object that has one, with the fallback \<^verbatim>\<open>Unknown error\<close> when the
  object has none, and the generic \<^verbatim>\<open>Error: ...\<close> banner of the last
  \<^verbatim>\<open>except\<close> clause when the body is no JSON object. No exception leaves the function:
  its result is a value in every case.
\<close>

theorem make_request_error_status:
  assumes "known_method m"
    and "backend env tr m (base_url self @ ep) (sent_data m d) = Responds r"
    and "\<not> (200 \<le> status_code r \<and> status_code r < 300)"
  shows "make_request env self ep m d tr =
     (PNone,
      tr @ [HttpRequest m (base_url self @ ep) (sent_data m d)] @
      (case json r of
         Some (PDict b) \<Rightarrow>
           [StError (''API Error ('' @ str_int (status_code r) @ ''): '' @
              py_str env
                (case map_of b ''error'' of None \<Rightarrow> PStr ''Unknown error'' | Some msg \<Rightarrow> msg)),
            Print (''Full error response: '' @ text_of r)]
       | Some other \<Rightarrow>
           [StError (''Error: '' @ exc_text env AttributeError),
            Print (''Detailed error: '' @ exc_text env AttributeError)]
       | None \<Rightarrow>
           [StError (''Error: '' @ exc_text env JSONDecodeError),
            Print (''Detailed error: '' @ exc_text env JSONDecodeError)]))"
proof -
  from assms(3) have ne: "status_code r \<noteq> 200" by auto
  show ?thesis
  proof (cases "json r")
    case None
    with assms(1,2) ne show ?thesis
      by (simp add: make_request_def request_try_known Let_def except_clauses_def)
  next
    case (Some v)
    with assms(1,2) ne show ?thesis
      by (cases v) (simp_all add: make_request_def request_try_known Let_def except_clauses_def)
  qed
qed

theorem make_request_error_status_witness:
  "make_request (answering (Responds not_found)) api ''/books/42'' ''DELETE'' PNone [] =
     (PNone,
      [HttpRequest ''DELETE'' ''http://localhost:5001/api/books/42'' PNone,
       StError ''API Error (404): Book not found'',
       Print (''Full error response: '' @ text_of not_found)])"
  using make_request_error_status [of "''DELETE''" "answering (Responds not_found)" "[]" api
      "''/books/42''" PNone not_found]
  by (simp add: known_method_def answering_def not_found_def sent_data_def api_def API_BASE_def
        str_int_def digit_char_def)

text \<open>
  Claim C9. \<^verbatim>\<open>_make_request\<close> returns a value for every endpoint, method, payload
  and answer of the service: None, or the parsed body of a response of status 200.
  Every exception raised inside the \<^verbatim>\<open>try\<close> block ends in an \<^verbatim>\<open>except\<close> clause that
  returns None. That holds for a method outside GET, POST, PUT and DELETE, where reading
  the unbound \<^verbatim>\<open>response\<close> raises before anything is sent, and for a response whose
  body is not JSON, whatever its status.
\<close>

theorem make_request_total:
  "(fst (make_request env self ep m d tr) = PNone
      \<or> (\<exists>r. known_method m
            \<and> backend env tr m (base_url self @ ep) (sent_data m d) = Responds r
            \<and> status_code r = 200
            \<and> json r = Some (fst (make_request env self ep m d tr))))
   \<and> (\<forall>e tr1. request_try env self ep m d tr = (Inl e, tr1)
         \<longrightarrow> make_request env self ep m d tr = (PNone, tr1 @ except_clauses env e))
   \<and> (\<not> known_method m \<longrightarrow>
         request_try env self ep m d tr = (Inl UnboundLocalError, tr)
         \<and> make_request env self ep m d tr = (PNone, tr @ except_clauses env UnboundLocalError))
   \<and> (\<forall>r. known_method m
         \<and> backend env tr m (base_url self @ ep) (sent_data m d) = Responds r
         \<and> json r = None
         \<longrightarrow> request_try env self ep m d tr =
               (Inl JSONDecodeError, tr @ [HttpRequest m (base_url self @ ep) (sent_data m d)])
             \<and> fst (make_request env self ep m d tr) = PNone)"
proof (intro conjI allI impI)
  show "fst (make_request env self ep m d tr) = PNone
      \<or> (\<exists>r. known_method m
            \<and> backend env tr m (base_url self @ ep) (sent_data m d) = Responds r
            \<and> status_code r = 200
            \<and> json r = Some (fst (make_request env self ep m d tr)))"
  proof (cases "known_method m")
    case True
    then show ?thesis
      by (auto simp: make_request_def request_try_known Let_def
               split: outcome.splits option.splits sum.splits)
  next
    case False
    then show ?thesis by (simp add: make_request_def request_try_unknown)
  qed
next
  fix e tr1 assume "request_try env self ep m d tr = (Inl e, tr1)"
  then show "make_request env self ep m d tr = (PNone, tr1 @ except_clauses env e)"
    by (simp add: make_request_def)
next
  assume "\<not> known_method m"
  then show "request_try env self ep m d tr = (Inl UnboundLocalError, tr)"
    by (rule request_try_unknown)
next
  assume "\<not> known_method m"
  then show "make_request env self ep m d tr = (PNone, tr @ except_clauses env UnboundLocalError)"
    by (simp add: make_request_def request_try_unknown)
next
  fix r assume h: "known_method m
         \<and> backend env tr m (base_url self @ ep) (sent_data m d) = Responds r
         \<and> json r = None"
  then show "request_try env self ep m d tr =
               (Inl JSONDecodeError, tr @ [HttpRequest m (base_url self @ ep) (sent_data m d)])"
    by (simp add: request_try_known Let_def)
  from h show "fst (make_request env self ep m d tr) = PNone"
    by (simp add: make_request_def request_try_known Let_def)
qed

theorem make_request_total_witness:
  "make_request (answering (Responds bad_gateway)) api ''/books'' ''PATCH'' PNone [] =
     (PNone, [StError ''Error: <exception>'', Print ''Detailed error: <exception>''])
   \<and> make_request (answering (Responds bad_gateway)) api ''/books'' ''GET'' PNone [] =
     (PNone, [HttpRequest ''GET'' ''http://localhost:5001/api/books'' PNone,
              StError ''Error: <exception>'', Print ''Detailed error: <exception>''])"
  using make_request_total [of "answering (Responds bad_gateway)" api "''/books''" "''PATCH''"
      PNone "[]"]
    make_request_total [of "answering (Responds bad_gateway)" api "''/books''" "''GET''"
      PNone "[]"]
  by (simp add: known_method_def answering_def bad_gateway_def sent_data_def api_def
        API_BASE_def except_clauses_def)

section \<open>Properties of the forms\<close>

lemma requests_of_after_write:
  "requests_of (snd (after_write result banner pause tr)) = requests_of tr"
  by (simp add: after_write_def requests_of_def split: sum.splits)

lemma known_POST: "known_method ''POST''"
  by (simp add: known_method_def)

text \<open>
  Claim C6. When the add-book form is submitted with title, author and category filled,
  the handler sends exactly one request, \<^verbatim>\<open>POST /books\<close>, and in its payload
  \<^verbatim>\<open>availableCopies\<close> is the submitted \<^verbatim>\<open>totalCopies\<close>. When one of the three
  is empty it shows the validation error and sends nothing.
\<close>

theorem add_book_submit_posts_once:
  "(title f \<noteq> [] \<and> author f \<noteq> [] \<and> category f \<noteq> [] \<longrightarrow>
      requests_of (snd (add_book_submit env f True tr)) =
        requests_of tr @ [HttpRequest ''POST'' (API_BASE @ ''/books'') (book_data f)]
      \<and> py_item (book_data f) ''totalCopies'' = Inr (PNum (total_copies f))
      \<and> py_item (book_data f) ''availableCopies'' = Inr (PNum (total_copies f)))
   \<and> (title f = [] \<or> author f = [] \<or> category f = [] \<longrightarrow>
      add_book_submit env f True tr = (Done, tr @ [StError required_fields_msg])
      \<and> requests_of (snd (add_book_submit env f True tr)) = requests_of tr)"
proof (intro conjI impI)
  assume req: "title f \<noteq> [] \<and> author f \<noteq> [] \<and> category f \<noteq> []"
  obtain result tr1 where r: "add_book env api (book_data f) tr = (result, tr1)"
    by (cases "add_book env api (book_data f) tr")
  have "requests_of tr1 = requests_of tr @ [HttpRequest ''POST'' (API_BASE @ ''/books'') (book_data f)]"
    using requests_of_make_request [of env api "''/books''" "''POST''" "book_data f" tr] r
    by (simp add: add_book_def known_POST sent_data_def api_def)
  with req r show "requests_of (snd (add_book_submit env f True tr)) =
        requests_of tr @ [HttpRequest ''POST'' (API_BASE @ ''/books'') (book_data f)]"
    by (simp add: add_book_submit_def requests_of_after_write)
next
  show "py_item (book_data f) ''totalCopies'' = Inr (PNum (total_copies f))"
    by (simp add: book_data_def)
next
  show "py_item (book_data f) ''availableCopies'' = Inr (PNum (total_copies f))"
    by (simp add: book_data_def)
next
  assume e: "title f = [] \<or> author f = [] \<or> category f = []"
  then show "add_book_submit env f True tr = (Done, tr @ [StError required_fields_msg])"
    by (auto simp: add_book_submit_def)
  with e show "requests_of (snd (add_book_submit env f True tr)) = requests_of tr"
    by (simp add: requests_of_def)
qed

theorem add_book_submit_posts_once_witness:
  "requests_of (snd (add_book_submit (answering (Responds refusal)) dune True [])) =
     [HttpRequest ''POST'' ''http://localhost:5001/api/books''
        (PDict [(''title'', PStr ''Dune''), (''author'', PStr ''Frank Herbert''),
                (''category'', PStr ''Fiction''), (''isbn'', PNone),
                (''totalCopies'', PNum 3), (''availableCopies'', PNum 3),
                (''publishedYear'', PNum 1965), (''description'', PNone)])]
   \<and> add_book_submit (answering (Responds refusal)) untitled True [] =
       (Done, [StError ''Please fill in all required fields (*)''])"
  using add_book_submit_posts_once [of dune "answering (Responds refusal)" "[]"]
    add_book_submit_posts_once [of untitled "answering (Responds refusal)" "[]"]
  by (simp add: dune_def untitled_def book_data_def opt_text_def API_BASE_def
        required_fields_msg_def requests_of_def)

text \<open>
  Claim C10. In the payloads of the add-book and the add-user form an optional text
  field that was left empty (ISBN, description, department) is None, which the JSON
  encoder writes as null, and never the empty string; the required fields are passed on
  as they were typed.
\<close>

theorem optional_fields_sent_as_null:
  "(title f \<noteq> [] \<and> author f \<noteq> [] \<and> category f \<noteq> [] \<longrightarrow>
      requests_of (snd (add_book_submit env f True tr)) =
        requests_of tr @ [HttpRequest ''POST'' (API_BASE @ ''/books'') (book_data f)])
   \<and> py_item (book_data f) ''isbn'' = Inr (if isbn f = [] then PNone else PStr (isbn f))
   \<and> py_item (book_data f) ''description'' =
        Inr (if description f = [] then PNone else PStr (description f))
   \<and> py_item (book_data f) ''title'' = Inr (PStr (title f))
   \<and> py_item (book_data f) ''author'' = Inr (PStr (author f))
   \<and> py_item (book_data f) ''category'' = Inr (PStr (category f))
   \<and> (name u \<noteq> [] \<and> email u \<noteq> [] \<and> user_type u \<noteq> [] \<longrightarrow>
      requests_of (snd (add_user_submit env u True tr)) =
        requests_of tr @ [HttpRequest ''POST'' (API_BASE @ ''/users'') (user_data u)])
   \<and> py_item (user_data u) ''department'' =
        Inr (if department u = [] then PNone else PStr (department u))
   \<and> py_item (user_data u) ''name'' = Inr (PStr (name u))
   \<and> py_item (user_data u) ''email'' = Inr (PStr (email u))
   \<and> py_item (user_data u) ''userType'' = Inr (PStr (user_type u))"
proof -
  have book: "requests_of (snd (add_book_submit env f True tr)) =
        requests_of tr @ [HttpRequest ''POST'' (API_BASE @ ''/books'') (book_data f)]"
    if req: "title f \<noteq> [] \<and> author f \<noteq> [] \<and> category f \<noteq> []"
  proof -
    obtain result tr1 where r: "add_book env api (book_data f) tr = (result, tr1)"
      by (cases "add_book env api (book_data f) tr")
    have "requests_of tr1 =
        requests_of tr @ [HttpRequest ''POST'' (API_BASE @ ''/books'') (book_data f)]"
      using requests_of_make_request [of env api "''/books''" "''POST''" "book_data f" tr] r
      by (simp add: add_book_def known_POST sent_data_def api_def)
    with req r show ?thesis
      by (simp add: add_book_submit_def requests_of_after_write)
  qed
  have user: "requests_of (snd (add_user_submit env u True tr)) =
        requests_of tr @ [HttpRequest ''POST'' (API_BASE @ ''/users'') (user_data u)]"
    if req: "name u \<noteq> [] \<and> email u \<noteq> [] \<and> user_type u \<noteq> []"
  proof -
    obtain result tr1 where r: "add_user env api (user_data u) tr = (result, tr1)"
      by (cases "add_user env api (user_data u) tr")
    have "requests_of tr1 =
        requests_of tr @ [HttpRequest ''POST'' (API_BASE @ ''/users'') (user_data u)]"
      using requests_of_make_request [of env api "''/users''" "''POST''" "user_data u" tr] r
      by (simp add: add_user_def known_POST sent_data_def api_def)
    with req r show ?thesis
      by (simp add: add_user_submit_def requests_of_after_write)
  qed
  from book user show ?thesis
    by (simp add: book_data_def user_data_def opt_text_def)
qed

theorem optional_fields_sent_as_null_witness:
  "requests_of (snd (add_user_submit (answering (Responds refusal)) ann True [])) =
     [HttpRequest ''POST'' ''http://localhost:5001/api/users''
        (PDict [(''name'', PStr ''Ann''), (''email'', PStr ''ann@epcet.edu''),
                (''userType'', PStr ''student''), (''department'', PNone)])]
   \<and> py_item (book_data dune) ''isbn'' = Inr PNone
   \<and> py_item (book_data dune) ''description'' = Inr PNone"
  using optional_fields_sent_as_null [where f = dune and u = ann
      and env = "answering (Responds refusal)" and tr = "[]"]
  by (simp add: dune_def ann_def user_data_def opt_text_def API_BASE_def requests_of_def)

section \<open>Properties of the dashboard page\<close>

lemma make_request_events:
  "\<exists>evs. snd (make_request env self ep m d tr) =
           tr @ (if known_method m then [HttpRequest m (base_url self @ ep) (sent_data m d)] else [])
              @ evs
         \<and> list_all error_or_print evs"
proof (cases "known_method m")
  case True
  then show ?thesis
    by (auto simp: make_request_def request_try_known Let_def except_clauses_def
             split: outcome.splits option.splits sum.splits)
next
  case False
  then show ?thesis
    by (simp add: make_request_def request_try_unknown except_clauses_def)
qed

text \<open>
  Claim C7. The dashboard page draws its header and probes \<^verbatim>\<open>/health\<close>. When the
  probe does not report OK (its result is None or another false value, or a dict whose
  \<^verbatim>\<open>status\<close> is not the string OK), the page shows the connectivity error and
  returns: the probe is the only request of the pass, and between the header and the
  connectivity error there is nothing but the probe and the error banner the API client
  may have shown for it. No metric, chart or table is drawn.
\<close>

theorem main_page_not_connected:
  assumes probe: "get_health env api (tr @ [StMarkdown brand_header]) = (health, tr1)"
    and not_ok: "\<not> truthy health
                 \<or> (\<exists>d. health = PDict d \<and> map_of d ''status'' \<noteq> Some (PStr ''OK''))"
  shows "main_page env tr = (Done, tr1 @ [StError not_connected_msg])
       \<and> requests_of (snd (main_page env tr)) =
           requests_of tr @ [HttpRequest ''GET'' (API_BASE @ ''/health'') PNone]
       \<and> (\<exists>evs. snd (main_page env tr) =
             tr @ [StMarkdown brand_header, HttpRequest ''GET'' (API_BASE @ ''/health'') PNone]
                @ evs @ [StError not_connected_msg]
             \<and> list_all error_or_print evs)"
proof -
  have cc: "check_connection env (tr @ [StMarkdown brand_header]) = (Inr False, tr1)"
  proof (cases "truthy health")
    case False
    with probe show ?thesis by (simp add: check_connection_def)
  next
    case True
    with not_ok obtain d where d: "health = PDict d" "map_of d ''status'' \<noteq> Some (PStr ''OK'')"
      by auto
    with probe True show ?thesis
      by (auto simp: check_connection_def split: option.splits)
  qed
  then have page: "main_page env tr = (Done, tr1 @ [StError not_connected_msg])"
    by (simp add: main_page_def Let_def)
  from make_request_events [of env api "''/health''" "''GET''" PNone "tr @ [StMarkdown brand_header]"]
  obtain evs where evs: "tr1 = tr @ [StMarkdown brand_header]
       @ [HttpRequest ''GET'' (API_BASE @ ''/health'') PNone] @ evs"
      "list_all error_or_print evs"
    using probe by (auto simp: get_health_def known_method_def sent_data_def api_def)
  have nr: "requests_of evs = []"
    using evs(2) by (induction evs) (auto simp: requests_of_def elim: error_or_print.elims)
  from page evs nr show ?thesis
    by (simp add: requests_of_def)
qed

theorem main_page_not_connected_witness:
  "main_page (answering (Raises ConnectionError)) [] =
     (Done, [StMarkdown brand_header,
             HttpRequest ''GET'' ''http://localhost:5001/api/health'' PNone,
             StError cannot_connect_msg, StError not_connected_msg])
   \<and> main_page (answering (Responds degraded)) [] =
     (Done, [StMarkdown brand_header,
             HttpRequest ''GET'' ''http://localhost:5001/api/health'' PNone,
             StError not_connected_msg])"
proof -
  have a: "get_health (answering (Raises ConnectionError)) api ([] @ [StMarkdown brand_header]) =
      (PNone, [StMarkdown brand_header,
               HttpRequest ''GET'' ''http://localhost:5001/api/health'' PNone,
               StError cannot_connect_msg])"
    by (simp add: get_health_def make_request_def request_try_def send_def answering_def
          api_def API_BASE_def except_clauses_def)
  have b: "get_health (answering (Responds degraded)) api ([] @ [StMarkdown brand_header]) =
      (PDict [(''status'', PStr ''ERROR'')],
       [StMarkdown brand_header,
        HttpRequest ''GET'' ''http://localhost:5001/api/health'' PNone])"
    by (simp add: get_health_def make_request_def request_try_def send_def answering_def
          api_def API_BASE_def degraded_def)
  from main_page_not_connected [OF a] main_page_not_connected [OF b]
  show ?thesis by simp
qed

text \<open>With a probe that reports OK the page goes on to the analytics call.\<close>

lemma main_page_connected_example:
  "requests_of (snd (main_page (answering (Responds healthy)) [])) =
     [HttpRequest ''GET'' ''http://localhost:5001/api/health'' PNone,
      HttpRequest ''GET'' ''http://localhost:5001/api/analytics/dashboard'' PNone]"
  by (simp add: main_page_def check_connection_def get_health_def get_dashboard_stats_def
        make_request_def request_try_def send_def answering_def api_def API_BASE_def
        healthy_def requests_of_def Let_def)

section \<open>Properties of the transactions page\<close>

lemma filter_by_mask: "map fst (filter snd (zip xs (map p xs))) = filter p xs"
  by (induction xs) auto

lemma greater_than_zero_number:
  "is_number v \<Longrightarrow> greater_than_zero b v = Inr (case v of PNum n \<Rightarrow> 0 < n | _ \<Rightarrow> False)"
  by (cases v) auto

lemma available_books_numbers:
  assumes col: "''availableCopies'' \<in> set (columns df)"
    and nums: "\<forall>r\<in>set (records df). is_number (cell r ''availableCopies'')"
  shows "available_books df = Inr (df\<lparr>records := filter has_copies (records df)\<rparr>)"
proof -
  let ?copies = "map (\<lambda>r. cell r ''availableCopies'') (records df)"
  have c: "column df ''availableCopies'' = Inr ?copies"
    using col by (simp add: column_def)
  have m: "map_raising (greater_than_zero (numeric_cells ?copies)) ?copies =
      Inr (map (\<lambda>v. case v of PNum n \<Rightarrow> 0 < n | _ \<Rightarrow> False) ?copies)"
    by (rule map_raising_total) (use nums in \<open>auto simp: greater_than_zero_number\<close>)
  have "map fst (filter snd (zip (records df)
          (map (\<lambda>v. case v of PNum n \<Rightarrow> 0 < n | _ \<Rightarrow> False) ?copies))) =
        filter has_copies (records df)"
    using filter_by_mask [of "records df" has_copies]
    by (simp add: has_copies_def [abs_def] comp_def)
  with c m show ?thesis
    by (simp add: py_bind_Inr py_bind_Inl available_books_def)
qed

lemma add_text_str: "is_str v \<Longrightarrow> add_text v t = Inr (PStr (str_of v @ t))"
  by (cases v) auto

lemma book_options_strings:
  assumes "''title'' \<in> set (columns av)" "''author'' \<in> set (columns av)"
    and "\<forall>r\<in>set (records av). is_str (cell r ''title'') \<and> is_str (cell r ''author'')"
  shows "book_options av = Inr (map book_label (records av))"
proof -
  have t: "map_raising (\<lambda>v. add_text v '' by '') (map (\<lambda>r. cell r ''title'') (records av)) =
      Inr (map (\<lambda>v. PStr (str_of v @ '' by '')) (map (\<lambda>r. cell r ''title'') (records av)))"
    by (rule map_raising_total) (use assms(3) in \<open>auto simp: add_text_str\<close>)
  have z: "map_raising (\<lambda>(u, v). add_cells u v)
        (zip (map (\<lambda>v. PStr (str_of v @ '' by '')) (map (\<lambda>r. cell r ''title'') rs))
             (map (\<lambda>r. cell r ''author'') rs)) = Inr (map book_label rs)"
    if "\<forall>r\<in>set rs. is_str (cell r ''author'')" for rs
    using that by (induction rs) (auto simp: book_label_def elim!: is_str.elims)
  from assms t z [of "records av"] show ?thesis
    by (simp add: py_bind_Inr py_bind_Inl book_options_def column_def)
qed

text \<open>
  Claim C3. For a list of books whose \<^verbatim>\<open>availableCopies\<close> are numbers, one of them
  zero, the frame \<^verbatim>\<open>available_books\<close> keeps, in their order, exactly the books with
  more than zero copies; copy counts not being negative, those are all books but the
  ones with zero copies. When there is a user and a book is left, and titles and authors
  are strings, the selector offers the entries \<^verbatim>\<open>title by author\<close> of exactly these
  books; when no book is left or there is no user, the form and its selector are not
  drawn.
\<close>

theorem borrow_selector_offers_available:
  assumes col: "''availableCopies'' \<in> set (columns df_books)"
    and nums: "\<forall>r\<in>set (records df_books). is_number (cell r ''availableCopies'')"
    and zero: "\<exists>r\<in>set (records df_books). cell r ''availableCopies'' = PNum 0"
  shows "available_books df_books =
           Inr (df_books\<lparr>records := filter has_copies (records df_books)\<rparr>)
       \<and> ((\<forall>r\<in>set (records df_books). \<forall>n. cell r ''availableCopies'' = PNum n \<longrightarrow> 0 \<le> n) \<longrightarrow>
            filter has_copies (records df_books) =
            filter (\<lambda>r. cell r ''availableCopies'' \<noteq> PNum 0) (records df_books))
       \<and> (''title'' \<in> set (columns df_books) \<and> ''author'' \<in> set (columns df_books)
            \<and> (\<forall>r\<in>set (records df_books). is_str (cell r ''title'') \<and> is_str (cell r ''author''))
            \<and> filter has_copies (records df_books) \<noteq> [] \<and> \<not> empty_frame df_users \<longrightarrow>
            book_selector df_books df_users =
              Inr (Some (map book_label (filter has_copies (records df_books)))))
       \<and> (filter has_copies (records df_books) = [] \<or> empty_frame df_users \<longrightarrow>
            book_selector df_books df_users = Inr None)"
proof (intro conjI impI)
  show av: "available_books df_books =
           Inr (df_books\<lparr>records := filter has_copies (records df_books)\<rparr>)"
    using col nums by (rule available_books_numbers)
  {
    assume nonneg: "\<forall>r\<in>set (records df_books). \<forall>n. cell r ''availableCopies'' = PNum n \<longrightarrow> 0 \<le> n"
    have "has_copies r = (cell r ''availableCopies'' \<noteq> PNum 0)" if "r \<in> set (records df_books)" for r
    proof -
      from nums that obtain n where n: "cell r ''availableCopies'' = PNum n"
        by (auto elim: is_number.elims)
      with nonneg that have "0 \<le> n" by blast
      with n show ?thesis by (auto simp: has_copies_def)
    qed
    then show "filter has_copies (records df_books) =
            filter (\<lambda>r. cell r ''availableCopies'' \<noteq> PNum 0) (records df_books)"
      by (intro filter_cong) auto
  }
  {
    assume h: "''title'' \<in> set (columns df_books) \<and> ''author'' \<in> set (columns df_books)
            \<and> (\<forall>r\<in>set (records df_books). is_str (cell r ''title'') \<and> is_str (cell r ''author''))
            \<and> filter has_copies (records df_books) \<noteq> [] \<and> \<not> empty_frame df_users"
    let ?av = "df_books\<lparr>records := filter has_copies (records df_books)\<rparr>"
    have "book_options ?av = Inr (map book_label (records ?av))"
      by (rule book_options_strings) (use h in auto)
    moreover have "\<not> empty_frame ?av"
      using h col by (auto simp: empty_frame_def)
    ultimately show "book_selector df_books df_users =
              Inr (Some (map book_label (filter has_copies (records df_books))))"
      using av h by (simp add: py_bind_Inr py_bind_Inl book_selector_def)
  }
  {
    assume "filter has_copies (records df_books) = [] \<or> empty_frame df_users"
    then show "book_selector df_books df_users = Inr None"
      using av by (auto simp: py_bind_Inr py_bind_Inl book_selector_def empty_frame_def)
  }
qed

theorem borrow_selector_offers_available_witness:
  "available_books three_books =
     Inr (three_books\<lparr>records :=
       [[(''_id'', PStr ''b1''), (''title'', PStr ''Dune''), (''author'', PStr ''Herbert''),
          (''availableCopies'', PNum 2)],
        [(''_id'', PStr ''b3''), (''title'', PStr ''Ulysses''), (''author'', PStr ''Joyce''),
          (''availableCopies'', PNum 1)]]\<rparr>)
   \<and> book_selector three_books one_user =
       Inr (Some [PStr ''Dune by Herbert'', PStr ''Ulysses by Joyce''])"
  using borrow_selector_offers_available [of three_books one_user]
  by (simp add: three_books_def one_user_def cell_def has_copies_def book_label_def
        empty_frame_def)

lemma no_early_separator:
  assumes "\<not> sublist '' - '' (c # tid)" and "\<not> suffix '' -'' (c # tid)"
  shows "\<not> prefix '' - '' (c # tid @ '' - '' @ rest)"
proof
  assume p: "prefix '' - '' (c # tid @ '' - '' @ rest)"
  show False
  proof (cases tid)
    case Nil
    with p show False by simp
  next
    case (Cons d tid1)
    show False
    proof (cases tid1)
      case Nil
      with Cons p have "c # tid = '' -''" by simp
      with assms(2) show False by simp
    next
      case (Cons e tid2)
      with \<open>tid = d # tid1\<close> p have "c # tid = '' - '' @ tid2" by auto
      then have "sublist '' - '' (c # tid)"
        by (metis prefixI prefix_imp_sublist)
      with assms(1) show False by simp
    qed
  qed
qed

lemma split_from_step:
  "s \<noteq> [] \<Longrightarrow> \<not> prefix sep s \<Longrightarrow>
     split_from sep acc s = split_from sep (acc @ [hd s]) (tl s)"
  by (subst split_from.simps) (simp del: split_from.simps)

lemma split_from_hit:
  "sep \<noteq> [] \<Longrightarrow> split_from sep acc (sep @ rest) = acc # split_from sep [] rest"
  by (subst split_from.simps) (simp del: split_from.simps)

lemma split_from_first:
  assumes "\<not> sublist '' - '' tid" and "\<not> suffix '' -'' tid"
  shows "split_from '' - '' acc (tid @ '' - '' @ rest) = (acc @ tid) # split_from '' - '' [] rest"
  using assms
proof (induction tid arbitrary: acc)
  case Nil
  show ?case
    using split_from_hit [of "'' - ''" acc rest] by (simp del: split_from.simps)
next
  case (Cons c tid)
  have np: "\<not> prefix '' - '' (c # tid @ '' - '' @ rest)"
    using Cons.prems by (rule no_early_separator)
  have s1: "\<not> sublist '' - '' tid"
    using Cons.prems(1) by (auto simp: sublist_Cons_right)
  have s2: "\<not> suffix '' -'' tid"
    using Cons.prems(2) by (auto simp: suffix_Cons)
  have "split_from '' - '' acc ((c # tid) @ '' - '' @ rest) =
        split_from '' - '' (acc @ [c]) (tid @ '' - '' @ rest)"
    using split_from_step [of "c # tid @ '' - '' @ rest" "'' - ''" acc, OF _ np]
    by (simp del: split_from.simps)
  also have "\<dots> = ((acc @ [c]) @ tid) # split_from '' - '' [] rest"
    using s1 s2 by (rule Cons.IH)
  finally show ?case by (simp del: split_from.simps)
qed

text \<open>
  Claim C2, as amended. For a transaction whose identifier is a string that neither
  contains the separator \<^verbatim>\<open>" - "\<close> nor ends in \<^verbatim>\<open>" -"\<close>, the identifier parsed from
  the entry of the return selector is the identifier the entry was built from, whatever
  the book title, the borrower and the due date are.
\<close>

theorem transaction_id_round_trip:
  assumes tid: "row_item df r ''transactionId'' = Inr (PStr tid)"
    and label: "transaction_option env df r = Inr selected_transaction"
    and no_sep: "\<not> sublist '' - '' tid"
    and no_tail: "\<not> suffix '' -'' tid"
  shows "parse_transaction_id selected_transaction = Inr tid"
proof -
  from tid label obtain rest where sel: "selected_transaction = tid @ '' - '' @ rest"
    by (auto simp: py_bind_Inr py_bind_Inl transaction_option_def py_bind_def Let_def split: sum.splits)
  then have ne: "selected_transaction \<noteq> []" by simp
  from split_from_first [OF no_sep no_tail, of "[]" rest] sel
  have "split_from '' - '' [] selected_transaction = tid # split_from '' - '' [] rest"
    by (simp del: split_from.simps)
  with ne show ?thesis
    by (simp add: py_bind_Inr py_bind_Inl parse_transaction_id_def py_split_def first_item_def del: split_from.simps)
qed

lemma nested_label:
  "transaction_option env (loans [nested_loan]) nested_loan =
     Inr ''T1 - Dune (User: Ann, Due: 2024-05-01)''"
  by (simp add: py_bind_Inr py_bind_Inl transaction_option_def nested_field_def row_item_def row_get_def cell_def
        loans_def loan_columns_def nested_loan_def loan_def dune_book_def ann_user_def)

theorem transaction_id_round_trip_witness:
  "parse_transaction_id ''T1 - Dune (User: Ann, Due: 2024-05-01)'' = Inr ''T1''"
proof -
  have a: "row_item (loans [nested_loan]) nested_loan ''transactionId'' = Inr (PStr ''T1'')"
    by (simp add: row_item_def cell_def loans_def loan_columns_def nested_loan_def loan_def)
  have b: "\<not> sublist '' - '' ''T1''"
    by (simp add: sublist_code)
  have c: "\<not> suffix '' -'' ''T1''"
    by (simp add: suffix_Cons)
  from transaction_id_round_trip [OF a nested_label b c]
  show ?thesis .
qed

text \<open>
  The claim as it was stated fails: the identifier \<^verbatim>\<open>T1 -\<close> does not contain the
  separator, but its last two characters and the blank that follows them in the entry
  form one, and the identifier parsed back is \<^verbatim>\<open>T1\<close>.
\<close>

theorem transaction_id_round_trip_counterexample:
  "\<not> sublist '' - '' ''T1 -''
   \<and> row_item (loans [odd_loan]) odd_loan ''transactionId'' = Inr (PStr ''T1 -'')
   \<and> transaction_option (answering (Raises ConnectionError)) (loans [odd_loan]) odd_loan =
       Inr ''T1 - - Dune (User: Ann, Due: 2024-05-01)''
   \<and> parse_transaction_id ''T1 - - Dune (User: Ann, Due: 2024-05-01)'' = Inr ''T1''"
proof (intro conjI)
  show "\<not> sublist '' - '' ''T1 -''"
    by (simp add: sublist_code)
  show "row_item (loans [odd_loan]) odd_loan ''transactionId'' = Inr (PStr ''T1 -'')"
    by (simp add: row_item_def cell_def loans_def loan_columns_def odd_loan_def loan_def)
  show "transaction_option (answering (Raises ConnectionError)) (loans [odd_loan]) odd_loan =
       Inr ''T1 - - Dune (User: Ann, Due: 2024-05-01)''"
    by (simp add: py_bind_Inr py_bind_Inl transaction_option_def nested_field_def row_item_def row_get_def cell_def
        loans_def loan_columns_def odd_loan_def loan_def dune_book_def ann_user_def)
  have "split_from '' - '' [] (''T1'' @ '' - '' @ ''- Dune (User: Ann, Due: 2024-05-01)'') =
      ([] @ ''T1'') # split_from '' - '' [] ''- Dune (User: Ann, Due: 2024-05-01)''"
    by (rule split_from_first) (simp_all add: sublist_code suffix_Cons)
  then show "parse_transaction_id ''T1 - - Dune (User: Ann, Due: 2024-05-01)'' = Inr ''T1''"
    by (simp add: py_bind_Inr py_bind_Inl parse_transaction_id_def py_split_def first_item_def del: split_from.simps)
qed

lemma nested_field_plain:
  "col \<in> set (columns df) \<Longrightarrow> \<not> isinstance_dict (cell r col) \<Longrightarrow>
     nested_field df r col key = Inr (PStr ''Unknown'')"
  by (simp add: py_bind_Inr py_bind_Inl nested_field_def row_item_def)

lemma is_str_not_dict: "is_str v \<Longrightarrow> \<not> isinstance_dict v"
  by (cases v) auto

text \<open>
  The return selector, the table of all transactions and the table of overdue
  transactions test every row. Where the \<^verbatim>\<open>bookId\<close> or \<^verbatim>\<open>userId\<close> of a transaction
  is a plain string, the projection gives the literal \<^verbatim>\<open>Unknown\<close> and raises nothing;
  the entry or row is then built from the two projections as they are.
\<close>

lemma row_tables_render_unknown:
  "(col \<in> set (columns df) \<and> is_str (cell r col) \<longrightarrow>
      nested_field df r col key = Inr (PStr ''Unknown''))
   \<and> (''transactionId'' \<in> set (columns df)
        \<and> nested_field df r ''bookId'' ''title'' = Inr book
        \<and> nested_field df r ''userId'' ''name'' = Inr user \<longrightarrow>
      transaction_option env df r =
        Inr (py_str env (cell r ''transactionId'') @ '' - '' @ py_str env book @ '' (User: ''
              @ py_str env user @ '', Due: ''
              @ py_str env (row_get df r ''dueDate'' (PStr [])) @ '')'')
      \<and> overdue_row df r =
        Inr [(''Transaction ID'', cell r ''transactionId''),
             (''Book'', book),
             (''User'', user),
             (''Due Date'', row_get df r ''dueDate'' (PStr [])),
             (''Overdue Days'', row_get df r ''overdueDays'' (PStr ''N/A''))]
      \<and> (''status'' \<in> set (columns df) \<and> ''borrowDate'' \<in> set (columns df) \<longrightarrow>
          transaction_row df r =
            Inr [(''Transaction ID'', cell r ''transactionId''),
                 (''Book'', book),
                 (''User'', user),
                 (''Status'', cell r ''status''),
                 (''Borrow Date'', cell r ''borrowDate''),
                 (''Due Date'', row_get df r ''dueDate'' (PStr [])),
                 (''Return Date'', row_get df r ''returnDate'' (PStr []))]))"
proof (intro conjI impI)
  assume "col \<in> set (columns df) \<and> is_str (cell r col)"
  then show "nested_field df r col key = Inr (PStr ''Unknown'')"
    by (simp add: nested_field_plain is_str_not_dict)
next
  assume h: "''transactionId'' \<in> set (columns df)
        \<and> nested_field df r ''bookId'' ''title'' = Inr book
        \<and> nested_field df r ''userId'' ''name'' = Inr user"
  then show "transaction_option env df r =
        Inr (py_str env (cell r ''transactionId'') @ '' - '' @ py_str env book @ '' (User: ''
              @ py_str env user @ '', Due: ''
              @ py_str env (row_get df r ''dueDate'' (PStr [])) @ '')'')"
    by (simp add: py_bind_Inr py_bind_Inl transaction_option_def row_item_def Let_def)
  from h show "overdue_row df r =
        Inr [(''Transaction ID'', cell r ''transactionId''),
             (''Book'', book),
             (''User'', user),
             (''Due Date'', row_get df r ''dueDate'' (PStr [])),
             (''Overdue Days'', row_get df r ''overdueDays'' (PStr ''N/A''))]"
    by (simp add: py_bind_Inr py_bind_Inl overdue_row_def row_item_def)
  assume "''status'' \<in> set (columns df) \<and> ''borrowDate'' \<in> set (columns df)"
  with h show "transaction_row df r =
            Inr [(''Transaction ID'', cell r ''transactionId''),
                 (''Book'', book),
                 (''User'', user),
                 (''Status'', cell r ''status''),
                 (''Borrow Date'', cell r ''borrowDate''),
                 (''Due Date'', row_get df r ''dueDate'' (PStr [])),
                 (''Return Date'', row_get df r ''returnDate'' (PStr []))]"
    by (simp add: py_bind_Inr py_bind_Inl transaction_row_def row_item_def)
qed

lemma row_tables_render_unknown_example:
  "nested_field (loans [flat_loan]) flat_loan ''bookId'' ''title'' = Inr (PStr ''Unknown'')
   \<and> nested_field (loans [flat_loan]) flat_loan ''userId'' ''name'' = Inr (PStr ''Unknown'')
   \<and> transaction_option (answering (Raises ConnectionError)) (loans [flat_loan]) flat_loan =
       Inr ''T2 - Unknown (User: Unknown, Due: 2024-05-01)''
   \<and> transaction_row (loans [flat_loan]) flat_loan =
       Inr [(''Transaction ID'', PStr ''T2''), (''Book'', PStr ''Unknown''),
            (''User'', PStr ''Unknown''), (''Status'', PStr ''borrowed''),
            (''Borrow Date'', PStr ''2024-04-17''), (''Due Date'', PStr ''2024-05-01''),
            (''Return Date'', PStr [])]"
proof -
  have b: "nested_field (loans [flat_loan]) flat_loan ''bookId'' ''title'' = Inr (PStr ''Unknown'')"
    using row_tables_render_unknown [where col = "''bookId''" and df = "loans [flat_loan]"
        and r = flat_loan and key = "''title''"]
    by (simp add: loans_def loan_columns_def flat_loan_def loan_def cell_def)
  have u: "nested_field (loans [flat_loan]) flat_loan ''userId'' ''name'' = Inr (PStr ''Unknown'')"
    using row_tables_render_unknown [where col = "''userId''" and df = "loans [flat_loan]"
        and r = flat_loan and key = "''name''"]
    by (simp add: loans_def loan_columns_def flat_loan_def loan_def cell_def)
  have c: "''transactionId'' \<in> set (columns (loans [flat_loan]))
      \<and> ''status'' \<in> set (columns (loans [flat_loan]))
      \<and> ''borrowDate'' \<in> set (columns (loans [flat_loan]))"
    by (simp add: loans_def loan_columns_def)
  from row_tables_render_unknown [where df = "loans [flat_loan]" and r = flat_loan
      and book = "PStr ''Unknown''" and user = "PStr ''Unknown''"
      and env = "answering (Raises ConnectionError)"] b u c
  show ?thesis
    by (simp add: loans_def loan_columns_def flat_loan_def loan_def cell_def row_get_def)
qed

text \<open>
  The recent-activity table of the dashboard tests the first row only. When that cell is
  a plain string, the table gets no column for it.
\<close>

lemma recent_activity_plain_first_row:
  "recent_activity (loans [flat_loan]) =
     Inr \<lparr>columns = [''transactionId'', ''status'', ''borrowDate''],
          records = [[(''transactionId'', PStr ''T2''), (''status'', PStr ''borrowed''),
                      (''borrowDate'', PStr ''2024-04-17'')]]\<rparr>"
  by (simp add: py_bind_Inr py_bind_Inl recent_activity_def select_columns_def add_projection_def first_item_def
        loans_def loan_columns_def flat_loan_def loan_def cell_def)

text \<open>The dashboard on the example service, step by step.\<close>

lemma mixed_frame:
  "DataFrame (PList [PDict nested_loan, PDict flat_loan]) = Inr (loans [nested_loan, flat_loan])"
  by (simp add: loans_def loan_columns_def nested_loan_def flat_loan_def loan_def)

lemma mixed_raises: "recent_activity (loans [nested_loan, flat_loan]) = Inl AttributeError"
  by (simp add: py_bind_Inr py_bind_Inl recent_activity_def select_columns_def
        add_projection_def first_item_def column_def loans_def loan_columns_def
        flat_loan_def nested_loan_def loan_def cell_def dune_book_def ann_user_def)

lemma health_ok:
  "check_connection dashboard_service tr =
     (Inr True, tr @ [HttpRequest ''GET'' ''http://localhost:5001/api/health'' PNone])"
  by (simp add: check_connection_def get_health_def make_request_def request_try_def send_def
        dashboard_service_def api_def API_BASE_def)

lemma stats_ok:
  "get_dashboard_stats dashboard_service api tr =
     (overview_stats,
      tr @ [HttpRequest ''GET'' ''http://localhost:5001/api/analytics/dashboard'' PNone])"
  by (simp add: get_dashboard_stats_def make_request_def request_try_def send_def
        dashboard_service_def api_def API_BASE_def)

lemma transactions_ok:
  "get_transactions dashboard_service api 1 10 [] tr =
     (mixed_transactions,
      tr @ [HttpRequest ''GET'' ''http://localhost:5001/api/transactions?page=1&limit=10'' PNone])"
  by (simp add: get_transactions_def make_request_def request_try_def send_def
        dashboard_service_def api_def API_BASE_def str_int_def digit_char_def)

lemma block_fails:
  "fst (recent_activity_block dashboard_service tr) = Failed AttributeError"
proof -
  have t: "truthy mixed_transactions"
    and g: "py_get mixed_transactions ''success'' PNone = Inr (PBool True)"
    by (simp_all add: mixed_transactions_def)
  have d: "py_bind (py_item mixed_transactions ''data'') DataFrame =
      Inr (loans [nested_loan, flat_loan])"
    using mixed_frame by (simp add: mixed_transactions_def py_bind_Inr)
  have ne: "\<not> empty_frame (loans [nested_loan, flat_loan])"
    by (simp add: empty_frame_def loans_def loan_columns_def)
  show ?thesis
    by (simp add: recent_activity_block_def transactions_ok Let_def t g d ne mixed_raises)
qed

lemma body_fails:
  "fst (dashboard_body dashboard_service overview_stats tr) = Failed AttributeError"
  by (simp add: dashboard_body_def overview_stats_def py_bind_Inr py_bind_Inl
        overview_metrics_def chart_def block_fails)

text \<open>
  Claim C5. A transaction whose \<^verbatim>\<open>bookId\<close> or \<^verbatim>\<open>userId\<close> is a plain string is to be
  rendered with the placeholder \<^verbatim>\<open>Unknown\<close>, without an error, by the recent-activity
  table as by the other tables. The recent-activity table does not do so: it tests
  \<^verbatim>\<open>isinstance\<close> on the first row and then applies \<^verbatim>\<open>x.get\<close> to every cell of the
  column. For a list of two transactions, the first nested and the second with plain
  strings, \<^verbatim>\<open>AttributeError\<close> is raised and leaves \<^verbatim>\<open>main_page\<close>, while the table
  of all transactions renders the same two records, the second with \<^verbatim>\<open>Unknown\<close>.
\<close>

theorem recent_activity_raises_on_plain_reference:
  "DataFrame (PList [PDict nested_loan, PDict flat_loan]) =
     Inr (loans [nested_loan, flat_loan])
   \<and> recent_activity (loans [nested_loan, flat_loan]) = Inl AttributeError
   \<and> fst (main_page dashboard_service []) = Failed AttributeError
   \<and> transactions_table (loans [nested_loan, flat_loan]) =
       Inr [[(''Transaction ID'', PStr ''T1''), (''Book'', PStr ''Dune''), (''User'', PStr ''Ann''),
             (''Status'', PStr ''borrowed''), (''Borrow Date'', PStr ''2024-04-17''),
             (''Due Date'', PStr ''2024-05-01''), (''Return Date'', PStr [])],
            [(''Transaction ID'', PStr ''T2''), (''Book'', PStr ''Unknown''),
             (''User'', PStr ''Unknown''), (''Status'', PStr ''borrowed''),
             (''Borrow Date'', PStr ''2024-04-17''), (''Due Date'', PStr ''2024-05-01''),
             (''Return Date'', PStr [])]]"
proof (intro conjI)
  show "DataFrame (PList [PDict nested_loan, PDict flat_loan]) =
     Inr (loans [nested_loan, flat_loan])"
    by (rule mixed_frame)
  show "recent_activity (loans [nested_loan, flat_loan]) = Inl AttributeError"
    by (rule mixed_raises)
  have "truthy overview_stats" "py_get overview_stats ''success'' PNone = Inr (PBool True)"
    by (simp_all add: overview_stats_def)
  then show "fst (main_page dashboard_service []) = Failed AttributeError"
    by (simp add: main_page_def health_ok stats_ok Let_def body_fails split_beta)
  show "transactions_table (loans [nested_loan, flat_loan]) =
       Inr [[(''Transaction ID'', PStr ''T1''), (''Book'', PStr ''Dune''), (''User'', PStr ''Ann''),
             (''Status'', PStr ''borrowed''), (''Borrow Date'', PStr ''2024-04-17''),
             (''Due Date'', PStr ''2024-05-01''), (''Return Date'', PStr [])],
            [(''Transaction ID'', PStr ''T2''), (''Book'', PStr ''Unknown''),
             (''User'', PStr ''Unknown''), (''Status'', PStr ''borrowed''),
             (''Borrow Date'', PStr ''2024-04-17''), (''Due Date'', PStr ''2024-05-01''),
             (''Return Date'', PStr [])]]"
    by (simp add: transactions_table_def transaction_row_def nested_field_def row_item_def
          row_get_def py_bind_Inr py_bind_Inl loans_def loan_columns_def flat_loan_def
          nested_loan_def loan_def cell_def dune_book_def ann_user_def)
qed

section \<open>Properties of the analytics page\<close>

text \<open>
  Claim C4, as amended. The plotted column is \<^verbatim>\<open>borrowCount\<close> when the frame has
  it, else \<^verbatim>\<open>count\<close> when the frame has it, numeric or not, else the first numeric
  column when there is one. So for a payload without \<^verbatim>\<open>borrowCount\<close>, with no
  \<^verbatim>\<open>count\<close> column that is not numeric and with exactly one numeric column, that
  numeric column is chosen.
\<close>

theorem select_y_column_preference:
  "(''borrowCount'' \<in> set (columns df) \<longrightarrow> select_y_column df = Inr ''borrowCount'')
   \<and> (''borrowCount'' \<notin> set (columns df) \<and> ''count'' \<in> set (columns df) \<longrightarrow>
        select_y_column df = Inr ''count'')
   \<and> (''borrowCount'' \<notin> set (columns df) \<and> ''count'' \<notin> set (columns df)
        \<and> numeric_columns df = c # cs \<longrightarrow>
        select_y_column df = Inr c)
   \<and> (''borrowCount'' \<notin> set (columns df)
        \<and> (''count'' \<in> set (columns df) \<longrightarrow> numeric_column df ''count'')
        \<and> numeric_columns df = [c] \<longrightarrow>
        select_y_column df = Inr c)"
proof (intro conjI impI)
  assume "''borrowCount'' \<in> set (columns df)"
  then show "select_y_column df = Inr ''borrowCount''"
    by (simp add: select_y_column_def)
next
  assume "''borrowCount'' \<notin> set (columns df) \<and> ''count'' \<in> set (columns df)"
  then show "select_y_column df = Inr ''count''"
    by (simp add: select_y_column_def)
next
  assume "''borrowCount'' \<notin> set (columns df) \<and> ''count'' \<notin> set (columns df)
        \<and> numeric_columns df = c # cs"
  then show "select_y_column df = Inr c"
    by (simp add: select_y_column_def)
next
  assume h: "''borrowCount'' \<notin> set (columns df)
        \<and> (''count'' \<in> set (columns df) \<longrightarrow> numeric_column df ''count'')
        \<and> numeric_columns df = [c]"
  show "select_y_column df = Inr c"
  proof (cases "''count'' \<in> set (columns df)")
    case True
    with h have "''count'' \<in> set (filter (numeric_column df) (columns df))"
      by simp
    then have "''count'' \<in> set (numeric_columns df)"
      by (simp only: numeric_columns_def)
    moreover from h have "set (numeric_columns df) = {c}"
      by simp
    ultimately have "c = ''count''" by simp
    with h True show ?thesis by (simp add: select_y_column_def)
  next
    case False
    with h show ?thesis by (simp add: select_y_column_def)
  qed
qed

text \<open>The frames of the two example payloads.\<close>

lemma totals_frame_built: "DataFrame totals_payload = Inr totals_frame"
  by (simp add: totals_payload_def totals_frame_def)

lemma labelled_frame_built: "DataFrame labelled_payload = Inr labelled_frame"
  by (simp add: labelled_payload_def labelled_frame_def)

theorem select_y_column_preference_witness:
  "numeric_columns totals_frame = [''total''] \<and> select_y_column totals_frame = Inr ''total''"
proof -
  have n: "numeric_columns totals_frame = [''total'']"
    by (simp add: numeric_columns_def numeric_column_def numeric_cells_def totals_frame_def
          cell_def)
  have c: "''borrowCount'' \<notin> set (columns totals_frame) \<and> ''count'' \<notin> set (columns totals_frame)"
    by (simp add: totals_frame_def)
  from select_y_column_preference [where df = totals_frame and c = "''total''"] n c
  show ?thesis by simp
qed

text \<open>
  The claim as it was stated fails: the payload \<open>labelled_payload\<close> has no
  \<^verbatim>\<open>borrowCount\<close> and exactly one numeric column, \<^verbatim>\<open>total\<close>, and the column chosen
  is \<^verbatim>\<open>count\<close>, which holds text.
\<close>

theorem select_y_column_text_count_counterexample:
  "DataFrame labelled_payload = Inr labelled_frame
   \<and> ''borrowCount'' \<notin> set (columns labelled_frame)
   \<and> numeric_columns labelled_frame = [''total'']
   \<and> select_y_column labelled_frame = Inr ''count''"
  by (simp add: labelled_payload_def labelled_frame_def numeric_columns_def numeric_column_def
        numeric_cells_def cell_def select_y_column_def)

end
